theory Spec2Isabelle
  imports Complex_Main "HOL-Library.AList"
begin

section \<open>SmartStock: the forecasting and status-classification core of the storage layer\<close>

text \<open>
  The development embeds the two storage classes of the server, \<open>MemStorage\<close> and
  \<open>PostgreSQLStorage\<close>, as far as their forecasting code goes: demand aggregation,
  forecast generation, stock projection, status classification and insight generation.
  Definitions of the first class carry the prefix \<open>Mem_\<close>, those of the second the
  prefix \<open>PG_\<close>; apart from the prefix they keep the names of the methods.

  Modelling conventions.
  \<^item> A JavaScript number that holds a database integer (ids, stock levels, quantities)
    is an \<open>int\<close>; a number that results from a division, a square root or a
    trigonometric function is a \<open>real\<close>. Arithmetic is exact: the rounding of IEEE
    doubles is not modelled.
  \<^item> A \<open>Date\<close> is an \<open>int\<close>, the milliseconds since the epoch. \<open>setDate\<close> with a
    day offset moves the instant by whole days of 86400000 ms (no daylight-saving
    shifts: the server's zone is taken to be UTC). Every \<open>new Date()\<close> read during one
    call of a method is the parameter \<open>now\<close> of its model.
  \<^item> The ISO date strings \<open>weekStartDate\<close>/\<open>weekEndDate\<close> are kept as the instants they
    are printed from; the week key of \<open>getWeekKey\<close> is kept as the UTC day number of
    the instant it is printed from (printing a day number as a date is injective).
  \<^item> \<open>NaN\<close> is \<open>None\<close> in an \<open>int option\<close>: reading an array beyond its end gives
    \<open>undefined\<close>, arithmetic on it gives \<open>NaN\<close>, \<open>Math.max(0, NaN)\<close> is \<open>NaN\<close> and every
    comparison with \<open>NaN\<close> is false.
  \<^item> The insight texts are values of a datatype that carry the number the template
    string interpolates.
\<close>

subsection \<open>Data model (shared/schema.ts)\<close>

record InventoryItem =
  item_id :: int
  item_name :: string
  sku :: string
  currentStock :: int
  reorderPoint :: int
  safetyStock :: int
  unitCost :: real
  leadTimeDays :: int
  category :: string
  supplier :: string
  lastUpdated :: int

record DemandHistory =
  dh_id :: int
  itemId :: int
  date :: int
  quantity :: int

datatype Status = Enough | Low | Order

text \<open>An entry of \<open>allWeeks\<close>: a week with its projected stock, not yet classified.\<close>

record ProjectedWeek =
  week :: int
  weekStartDate :: int
  weekEndDate :: int
  projectedStock :: "int option"
  isHistorical :: bool

text \<open>An entry of the returned array: \<open>{...currentWeek, status: statusValue}\<close>.\<close>

record WeekStatus = ProjectedWeek +
  status :: Status

definition dayMs :: int where
  "dayMs = 86400000"

subsection \<open>JavaScript arithmetic used by the projector\<close>

definition js_index :: "int list \<Rightarrow> nat \<Rightarrow> int option" where
  "js_index xs i = (if i < length xs then Some (xs ! i) else None)"

definition js_minus :: "int option \<Rightarrow> int option \<Rightarrow> int option" where
  "js_minus a b = (case a of None \<Rightarrow> None
                   | Some x \<Rightarrow> (case b of None \<Rightarrow> None | Some y \<Rightarrow> Some (x - y)))"

definition js_max0 :: "int option \<Rightarrow> int option" where
  "js_max0 a = (case a of None \<Rightarrow> None | Some x \<Rightarrow> Some (max 0 x))"

text \<open>\<open>Math.round\<close> rounds to the nearest integer, halves upwards.\<close>

definition js_round :: "real \<Rightarrow> int" where
  "js_round x = \<lfloor>x + 1 / 2\<rfloor>"

subsection \<open>MemStorage: demand aggregation\<close>

text \<open>
  The body of the loop over \<open>weekOffset\<close>, which \<open>calculateWeeklyDemand\<close> and
  \<open>calculateDemandVariability\<close> both contain word for word. \<open>Mem_inWeek\<close> is the
  callback of the \<open>filter\<close>: the record's date lies in \<open>[weekStart, weekEnd]\<close>.
\<close>

definition Mem_inWeek :: "int \<Rightarrow> nat \<Rightarrow> DemandHistory \<Rightarrow> bool" where
  "Mem_inWeek now weekOffset d =
     (let weekStart = now - (int weekOffset * 7 + 7) * dayMs;
          weekEnd = weekStart + 6 * dayMs
      in date d \<ge> weekStart \<and> date d \<le> weekEnd)"

definition Mem_weekTotal :: "DemandHistory list \<Rightarrow> int \<Rightarrow> nat \<Rightarrow> int" where
  "Mem_weekTotal demands now weekOffset =
     (let weekDemands = filter (Mem_inWeek now weekOffset) demands
      in foldl (\<lambda>sum d. sum + quantity d) 0 weekDemands)"

definition Mem_weeklyTotals :: "DemandHistory list \<Rightarrow> int \<Rightarrow> int list" where
  "Mem_weeklyTotals demands now = map (Mem_weekTotal demands now) [0..<12]"

definition Mem_calculateWeeklyDemand :: "DemandHistory list \<Rightarrow> int \<Rightarrow> real" where
  "Mem_calculateWeeklyDemand demands now =
     (let weeklyTotals = Mem_weeklyTotals demands now
      in real_of_int (foldl (\<lambda>sum total. sum + total) 0 weeklyTotals)
           / real (length weeklyTotals))"

definition Mem_calculateDemandVariability :: "DemandHistory list \<Rightarrow> int \<Rightarrow> real" where
  "Mem_calculateDemandVariability demands now =
     (let weeklyTotals = Mem_weeklyTotals demands now;
          avg = real_of_int (foldl (\<lambda>sum total. sum + total) 0 weeklyTotals)
                  / real (length weeklyTotals);
          variance = foldl (\<lambda>sum total. sum + (real_of_int total - avg)\<^sup>2) 0 weeklyTotals
                       / real (length weeklyTotals)
      in sqrt variance)"

subsection \<open>MemStorage: forecast generation\<close>

definition Mem_generateForecast :: "InventoryItem \<Rightarrow> DemandHistory list \<Rightarrow> int \<Rightarrow> int list" where
  "Mem_generateForecast item demands now =
     (let weeklyDemand = Mem_calculateWeeklyDemand demands now;
          variability = Mem_calculateDemandVariability demands now;
          seed = real_of_int (item_id item * 123)
      in map (\<lambda>i.
            let trendFactor = 1 + (sin (seed + real i) * 0.05);
                variabilityFactor = cos (seed + real i * 2) * variability * 0.3
            in max 0 \<lfloor>weeklyDemand * trendFactor + variabilityFactor\<rfloor>) [0..<8])"

subsection \<open>Status classification (the same two loops in both classes)\<close>

text \<open>The test \<open>projectedStock <= 0 || projectedStock <= item.reorderPoint\<close>.\<close>

definition orderLevel :: "int \<Rightarrow> int option \<Rightarrow> bool" where
  "orderLevel rp p = (case p of None \<Rightarrow> False | Some s \<Rightarrow> s \<le> 0 \<or> s \<le> rp)"

text \<open>
  The first loop: the index of the first week at order level, or \<open>-1\<close>. The argument
  \<open>i\<close> is the index of the head of the remaining list.
\<close>

fun firstOrderWeekIndex :: "int \<Rightarrow> ProjectedWeek list \<Rightarrow> nat \<Rightarrow> int" where
  "firstOrderWeekIndex rp [] i = - 1"
| "firstOrderWeekIndex rp (currentWeek # rest) i =
     (if orderLevel rp (projectedStock currentWeek) then int i
      else firstOrderWeekIndex rp rest (Suc i))"

definition statusValue :: "int \<Rightarrow> int \<Rightarrow> nat \<Rightarrow> ProjectedWeek \<Rightarrow> Status" where
  "statusValue rp firstIdx i currentWeek =
     (if orderLevel rp (projectedStock currentWeek) then Order
      else if firstIdx \<noteq> - 1 \<and> int i = firstIdx - 1 then Low
      else Enough)"

definition classifyWeeks :: "int \<Rightarrow> ProjectedWeek list \<Rightarrow> WeekStatus list" where
  "classifyWeeks rp allWeeks =
     (let firstIdx = firstOrderWeekIndex rp allWeeks 0
      in map (\<lambda>i. let currentWeek = allWeeks ! i
                  in \<lparr> week = week currentWeek,
                       weekStartDate = weekStartDate currentWeek,
                       weekEndDate = weekEndDate currentWeek,
                       projectedStock = projectedStock currentWeek,
                       isHistorical = isHistorical currentWeek,
                       status = statusValue rp firstIdx i currentWeek \<rparr>)
           [0..<length allWeeks])"

subsection \<open>MemStorage: stock projection\<close>

text \<open>One round of the loop over the historical weeks, \<open>i\<close> from \<open>-4\<close> to \<open>-1\<close>.\<close>

definition Mem_historicalWeek :: "InventoryItem \<Rightarrow> real \<Rightarrow> int \<Rightarrow> int \<Rightarrow> ProjectedWeek" where
  "Mem_historicalWeek item weeklyDemand now i =
     (let weekStart = now + (i * 7) * dayMs;
          weekEnd = weekStart + 6 * dayMs;
          weeksFromNow = \<bar>i\<bar>;
          historicalStock = real_of_int (currentStock item)
                              + (weeklyDemand * real_of_int weeksFromNow)
      in \<lparr> week = i + 5, weekStartDate = weekStart, weekEndDate = weekEnd,
           projectedStock = Some (max 0 \<lfloor>historicalStock\<rfloor>), isHistorical = True \<rparr>)"

text \<open>
  The loop over the future weeks: \<open>i\<close> is the loop counter, the next argument the
  number of rounds still to run, the last the variable \<open>projectedStock\<close>.
\<close>

fun Mem_futureWeeks :: "int list \<Rightarrow> int \<Rightarrow> nat \<Rightarrow> nat \<Rightarrow> int option \<Rightarrow> ProjectedWeek list" where
  "Mem_futureWeeks forecast now i 0 stock = []"
| "Mem_futureWeeks forecast now i (Suc n) stock =
     (let stock' = js_minus stock (js_index forecast i);
          weekStart = now + (int i * 7) * dayMs;
          weekEnd = weekStart + 6 * dayMs
      in \<lparr> week = int i + 5, weekStartDate = weekStart, weekEndDate = weekEnd,
           projectedStock = js_max0 stock', isHistorical = False \<rparr>
         # Mem_futureWeeks forecast now (Suc i) n stock')"

text \<open>\<open>this.demandHistory.get(item.id) || []\<close> on the map of the store.\<close>

definition Mem_history :: "(int \<rightharpoonup> DemandHistory list) \<Rightarrow> InventoryItem \<Rightarrow> DemandHistory list" where
  "Mem_history demandHistory item =
     (case demandHistory (item_id item) of None \<Rightarrow> [] | Some ds \<Rightarrow> ds)"

definition Mem_allWeeks ::
  "(int \<rightharpoonup> DemandHistory list) \<Rightarrow> InventoryItem \<Rightarrow> int list \<Rightarrow> int \<Rightarrow> ProjectedWeek list" where
  "Mem_allWeeks demandHistory item forecast now =
     (let weeklyDemand = Mem_calculateWeeklyDemand (Mem_history demandHistory item) now
      in map (Mem_historicalWeek item weeklyDemand now) [- 4, - 3, - 2, - 1]
         @ Mem_futureWeeks forecast now 0 8 (Some (currentStock item)))"

definition Mem_generateStockStatus ::
  "(int \<rightharpoonup> DemandHistory list) \<Rightarrow> InventoryItem \<Rightarrow> int list \<Rightarrow> int \<Rightarrow> WeekStatus list" where
  "Mem_generateStockStatus demandHistory item forecast now =
     classifyWeeks (reorderPoint item) (Mem_allWeeks demandHistory item forecast now)"

subsection \<open>MemStorage: insights\<close>

text \<open>
  The texts pushed by the two \<open>generateAIInsights\<close> methods, each with the number its
  template interpolates:
  \<^item> \<open>OutOfStockIn n\<close>: "Will be out of stock in n weeks. Immediate action required."
  \<^item> \<open>HighDemandEOQ d\<close>: "High demand detected (d units/week). Consider increasing EOQ."
  \<^item> \<open>Overstock\<close>: "Overstock situation. Consider reducing next order quantity."
  \<^item> \<open>CriticalRunOut n\<close>: "Critical: Stock will run out in n week(s). Order immediately."
  \<^item> \<open>WarningLowStock n\<close>: "Warning: Low stock predicted for n weeks. Consider reordering."
  \<^item> \<open>HighDemandMonitor\<close>: "High demand detected. Monitor closely for stockouts."
  \<^item> \<open>SlowMoving\<close>: "Slow-moving inventory detected. Consider promotions or discounts."
  \<^item> \<open>Healthy\<close>: "Stock levels appear healthy for the forecast period."
\<close>

datatype Insight =
    OutOfStockIn int
  | HighDemandEOQ real
  | Overstock
  | CriticalRunOut nat
  | WarningLowStock nat
  | HighDemandMonitor
  | SlowMoving
  | Healthy

text \<open>\<open>Array.prototype.findIndex\<close>: the index of the first match, or \<open>-1\<close>.\<close>

fun findIndexFrom :: "('a \<Rightarrow> bool) \<Rightarrow> 'a list \<Rightarrow> nat \<Rightarrow> int" where
  "findIndexFrom P [] i = - 1"
| "findIndexFrom P (x # xs) i = (if P x then int i else findIndexFrom P xs (Suc i))"

definition findIndex :: "('a \<Rightarrow> bool) \<Rightarrow> 'a list \<Rightarrow> int" where
  "findIndex P xs = findIndexFrom P xs 0"

definition Mem_generateAIInsights :: "InventoryItem \<Rightarrow> WeekStatus list \<Rightarrow> real \<Rightarrow> Insight list" where
  "Mem_generateAIInsights item stockStatus weeklyDemand =
     (let criticalWeeks = length (filter (\<lambda>s. status s = Order) stockStatus)
      in (if criticalWeeks > 0
          then [OutOfStockIn (findIndex (\<lambda>s. status s = Order) stockStatus + 1)] else [])
         @ (if weeklyDemand > 50 then [HighDemandEOQ weeklyDemand] else [])
         @ (if currentStock item > reorderPoint item * 4 then [Overstock] else []))"

subsection \<open>PostgreSQLStorage: demand aggregation\<close>

text \<open>
  \<open>getWeekKey\<close>: the date moved back by its day of the week (\<open>getDay\<close>, 0 for Sunday;
  day 0 of the epoch was a Thursday), printed as a date.
\<close>

definition PG_getWeekKey :: "int \<Rightarrow> int" where
  "PG_getWeekKey d =
     (let getDay = (d div dayMs + 4) mod 7;
          startOfWeek = d - getDay * dayMs
      in startOfWeek div dayMs)"

text \<open>
  The \<open>forEach\<close> that fills the \<open>Map\<close> from week keys to totals, and its callback
  \<open>PG_addDemand\<close>. The map is an association list in insertion order; \<open>Map.set\<close>
  replaces the value of a present key in place and appends an absent one, as
  \<open>AList.update\<close> does; \<open>weeklyTotals.get(weekKey) || 0\<close> reads 0 for an absent key.
\<close>

definition PG_addDemand :: "(int \<times> int) list \<Rightarrow> DemandHistory \<Rightarrow> (int \<times> int) list" where
  "PG_addDemand weeklyTotals demand =
     (let weekKey = PG_getWeekKey (date demand)
      in AList.update weekKey
           ((case map_of weeklyTotals weekKey of None \<Rightarrow> 0 | Some t \<Rightarrow> t)
              + quantity demand)
           weeklyTotals)"

definition PG_weeklyTotals :: "DemandHistory list \<Rightarrow> (int \<times> int) list" where
  "PG_weeklyTotals demands = foldl PG_addDemand [] demands"

definition PG_calculateWeeklyDemand :: "DemandHistory list \<Rightarrow> real" where
  "PG_calculateWeeklyDemand demands =
     (if length demands = 0 then 0
      else let weeklyTotals = PG_weeklyTotals demands;
               totalWeeklyDemand = foldl (\<lambda>sum total. sum + total) 0 (map snd weeklyTotals)
           in if length weeklyTotals > 0
              then real_of_int totalWeeklyDemand / real (length weeklyTotals) else 0)"

definition PG_calculateDemandVariability :: "DemandHistory list \<Rightarrow> real" where
  "PG_calculateDemandVariability demands =
     (if length demands < 2 then 0
      else let vals = map snd (PG_weeklyTotals demands);
               mean = real_of_int (foldl (\<lambda>sum val. sum + val) 0 vals) / real (length vals);
               variance = foldl (\<lambda>sum val. sum + (real_of_int val - mean)\<^sup>2) 0 vals
                            / real (length vals)
           in sqrt variance)"

subsection \<open>PostgreSQLStorage: forecast, projection, insights\<close>

definition PG_generateForecast :: "InventoryItem \<Rightarrow> DemandHistory list \<Rightarrow> int list" where
  "PG_generateForecast item demands =
     (let weeklyDemand = PG_calculateWeeklyDemand demands;
          seed = real_of_int (item_id item * 123)
      in map (\<lambda>week.
            let variation = sin (seed + real week) * 0.2;
                forecastValue = max 0 (weeklyDemand * (1 + variation))
            in js_round forecastValue) [1..<9])"

definition PG_historicalWeek :: "InventoryItem \<Rightarrow> real \<Rightarrow> int \<Rightarrow> int \<Rightarrow> ProjectedWeek" where
  "PG_historicalWeek item weeklyDemand today wk =
     (let weekStart = today + (wk * 7) * dayMs;
          weekEnd = weekStart + 6 * dayMs;
          weeksFromNow = \<bar>wk\<bar>;
          historicalStock = real_of_int (currentStock item)
                              + (weeklyDemand * real_of_int weeksFromNow)
      in \<lparr> week = wk + 5, weekStartDate = weekStart, weekEndDate = weekEnd,
           projectedStock = Some (max 0 (js_round historicalStock)), isHistorical = True \<rparr>)"

text \<open>
  The loop over the forecast weeks; \<open>forecast[week] || 0\<close> reads 0 beyond the end of the
  array, so the running stock stays a number.
\<close>

fun PG_futureWeeks :: "int list \<Rightarrow> int \<Rightarrow> nat \<Rightarrow> nat \<Rightarrow> int \<Rightarrow> ProjectedWeek list" where
  "PG_futureWeeks forecast today wk 0 stock = []"
| "PG_futureWeeks forecast today wk (Suc n) stock =
     (let weekStart = today + (int wk * 7) * dayMs;
          weekEnd = weekStart + 6 * dayMs;
          stock' = stock - (case js_index forecast wk of None \<Rightarrow> 0 | Some f \<Rightarrow> f)
      in \<lparr> week = int wk + 5, weekStartDate = weekStart, weekEndDate = weekEnd,
           projectedStock = Some (max 0 (js_round (real_of_int stock'))),
           isHistorical = False \<rparr>
         # PG_futureWeeks forecast today (Suc wk) n stock')"

definition PG_allWeeks :: "InventoryItem \<Rightarrow> int list \<Rightarrow> int \<Rightarrow> ProjectedWeek list" where
  "PG_allWeeks item forecast today =
     (let weeklyDemand = PG_calculateWeeklyDemand []
      in map (PG_historicalWeek item weeklyDemand today) [- 4, - 3, - 2, - 1]
         @ PG_futureWeeks forecast today 0 8 (currentStock item))"

definition PG_generateStockStatus :: "InventoryItem \<Rightarrow> int list \<Rightarrow> int \<Rightarrow> WeekStatus list" where
  "PG_generateStockStatus item forecast today =
     classifyWeeks (reorderPoint item) (PG_allWeeks item forecast today)"

definition PG_generateAIInsights :: "InventoryItem \<Rightarrow> WeekStatus list \<Rightarrow> real \<Rightarrow> Insight list" where
  "PG_generateAIInsights item stockStatus weeklyDemand =
     (let lowStockWeeks = length (filter (\<lambda>s. status s = Low \<and> \<not> isHistorical s) stockStatus);
          orderWeeks = length (filter (\<lambda>s. status s = Order \<and> \<not> isHistorical s) stockStatus);
          insights1 = (if orderWeeks > 0 then [CriticalRunOut orderWeeks]
                       else if lowStockWeeks > 2 then [WarningLowStock lowStockWeeks] else []);
          insights2 = insights1
                      @ (if weeklyDemand > real_of_int (currentStock item) / 2
                         then [HighDemandMonitor] else []);
          turnoverWeeks = real_of_int (currentStock item) / max weeklyDemand 1;
          insights3 = insights2 @ (if turnoverWeeks > 12 then [SlowMoving] else [])
      in if length insights3 = 0 then [Healthy] else insights3)"

subsection \<open>The per-item step of getInventoryWithForecast\<close>

record InventoryItemWithForecast = InventoryItem +
  forecast :: "int list"
  weeklyDemand :: real
  demandVariability :: real
  stockStatus :: "WeekStatus list"
  aiInsights :: "Insight list"

definition Mem_withForecast ::
  "(int \<rightharpoonup> DemandHistory list) \<Rightarrow> InventoryItem \<Rightarrow> int \<Rightarrow> InventoryItemWithForecast" where
  "Mem_withForecast demandHistory item now =
     (let demands = Mem_history demandHistory item;
          wd = Mem_calculateWeeklyDemand demands now;
          dv = Mem_calculateDemandVariability demands now;
          fc = Mem_generateForecast item demands now;
          st = Mem_generateStockStatus demandHistory item fc now;
          ins = Mem_generateAIInsights item st wd
      in InventoryItem.extend item
           (InventoryItemWithForecast.fields fc wd dv st ins))"

definition Mem_getInventoryWithForecast ::
  "(int \<rightharpoonup> DemandHistory list) \<Rightarrow> InventoryItem list \<Rightarrow> int \<Rightarrow> InventoryItemWithForecast list" where
  "Mem_getInventoryWithForecast demandHistory items now =
     map (\<lambda>item. Mem_withForecast demandHistory item now) items"

definition PG_withForecast ::
  "DemandHistory list \<Rightarrow> InventoryItem \<Rightarrow> int \<Rightarrow> InventoryItemWithForecast" where
  "PG_withForecast demands item now =
     (let itemDemands = filter (\<lambda>d. itemId d = item_id item) demands;
          wd = PG_calculateWeeklyDemand itemDemands;
          dv = PG_calculateDemandVariability itemDemands;
          fc = PG_generateForecast item itemDemands;
          st = PG_generateStockStatus item fc now;
          ins = PG_generateAIInsights item st wd
      in InventoryItem.extend item
           (InventoryItemWithForecast.fields fc wd dv st ins))"

definition PG_getInventoryWithForecast ::
  "DemandHistory list \<Rightarrow> InventoryItem list \<Rightarrow> int \<Rightarrow> InventoryItemWithForecast list" where
  "PG_getInventoryWithForecast demands items now =
     map (\<lambda>item. PG_withForecast demands item now) items"

subsection \<open>The specification's formulas\<close>

text \<open>
  The Demand Aggregator as the specification words it: twelve 7-day buckets, the bucket
  \<open>w\<close> starting \<open>7 * (w + 1)\<close> days before now and ending 6 days after its start (both
  ends included); the weekly demand is the sum of the twelve bucket totals over 12.
\<close>

definition spec_bucketTotal :: "DemandHistory list \<Rightarrow> int \<Rightarrow> nat \<Rightarrow> int" where
  "spec_bucketTotal demands now w =
     (\<Sum>d\<leftarrow>demands. if now - 7 * (int w + 1) * dayMs \<le> date d
                        \<and> date d \<le> now - 7 * (int w + 1) * dayMs + 6 * dayMs
                     then quantity d else 0)"

definition spec_weeklyDemand :: "DemandHistory list \<Rightarrow> int \<Rightarrow> real" where
  "spec_weeklyDemand demands now =
     real_of_int (\<Sum>w\<leftarrow>[0..<12]. spec_bucketTotal demands now w) / 12"

text \<open>The Forecast Generator's value for the future week \<open>i\<close> (counted from 0).\<close>

definition spec_forecastValue :: "int \<Rightarrow> real \<Rightarrow> real \<Rightarrow> nat \<Rightarrow> int" where
  "spec_forecastValue ident wd variability i =
     (let seed = real_of_int (ident * 123)
      in max 0 \<lfloor>wd * (1 + sin (seed + real i) * 0.05)
                 + cos (seed + real i * 2) * variability * 0.3\<rfloor>)"

subsection \<open>Properties of a classified week sequence\<close>

text \<open>
  The rule of the first week at order level: that week and every later one is
  \<open>Order\<close>; of the weeks before it, the one immediately before is \<open>Low\<close> and the others
  are \<open>Enough\<close>.
\<close>

definition firstOrderRule :: "int \<Rightarrow> WeekStatus list \<Rightarrow> bool" where
  "firstOrderRule rp ws \<longleftrightarrow>
     length ws = 12 \<and>
     (\<forall>k<12. orderLevel rp (projectedStock (ws ! k))
              \<and> (\<forall>j<k. \<not> orderLevel rp (projectedStock (ws ! j)))
        \<longrightarrow> (\<forall>j<12. k \<le> j \<longrightarrow> status (ws ! j) = Order)
            \<and> (\<forall>j<k. status (ws ! j) = (if Suc j = k then Low else Enough)))"

text \<open>
  At most one week is \<open>Low\<close>; the week after a \<open>Low\<close> week is \<open>Order\<close> and no week
  before it is; without an \<open>Order\<close> week there is no \<open>Low\<close> week.
\<close>

definition lowRule :: "WeekStatus list \<Rightarrow> bool" where
  "lowRule ws \<longleftrightarrow>
     length (filter (\<lambda>w. status w = Low) ws) \<le> 1 \<and>
     (\<forall>i<length ws. status (ws ! i) = Low
        \<longrightarrow> Suc i < length ws \<and> status (ws ! Suc i) = Order
            \<and> (\<forall>j<i. status (ws ! j) \<noteq> Order)) \<and>
     ((\<forall>w\<in>set ws. status w \<noteq> Order) \<longrightarrow> (\<forall>w\<in>set ws. status w \<noteq> Low))"

text \<open>Every projected stock is a number, and not negative.\<close>

definition stocksNonNegative :: "WeekStatus list \<Rightarrow> bool" where
  "stocksNonNegative ws \<longleftrightarrow>
     length ws = 12 \<and> (\<forall>w\<in>set ws. \<exists>s. projectedStock w = Some s \<and> 0 \<le> s)"

text \<open>Each week's projected stock is at least the next week's.\<close>

definition nonIncreasingStock :: "WeekStatus list \<Rightarrow> bool" where
  "nonIncreasingStock ws \<longleftrightarrow>
     length ws = 12 \<and>
     (\<forall>j<11. \<exists>a b. projectedStock (ws ! j) = Some a
                  \<and> projectedStock (ws ! Suc j) = Some b \<and> b \<le> a)"

subsection \<open>Sample data\<close>

text \<open>
  The third sample item of \<open>initializeSampleData\<close>, an instant \<open>now0\<close> (day 20000 of the
  epoch, 00:00 UTC), a demand history with one record of 84 units at the start of each
  of the twelve buckets before \<open>now0\<close>, and a history with a single record of 1008
  units a week before \<open>now0\<close>.
\<close>

definition usbCable :: InventoryItem where
  "usbCable = \<lparr> item_id = 3, item_name = ''USB-C Cable'', sku = ''UC-012'',
      currentStock = 45, reorderPoint = 60, safetyStock = 20, unitCost = 8.99,
      leadTimeDays = 3, category = ''Cables'', supplier = ''CableTech'', lastUpdated = 0 \<rparr>"

definition now0 :: int where
  "now0 = 20000 * 86400000"

definition weeklyRecords :: "DemandHistory list" where
  "weeklyRecords =
     map (\<lambda>w. \<lparr> dh_id = int w + 1, itemId = 3,
                 date = now0 - (int w * 7 + 7) * 86400000, quantity = 84 \<rparr>) [0..<12]"

definition oneRecord :: DemandHistory where
  "oneRecord = \<lparr> dh_id = 1, itemId = 3, date = now0 - 7 * 86400000, quantity = 1008 \<rparr>"

definition weeklyStore :: "int \<rightharpoonup> DemandHistory list" where
  "weeklyStore = [3 \<mapsto> weeklyRecords]"

definition oneRecordStore :: "int \<rightharpoonup> DemandHistory list" where
  "oneRecordStore = [3 \<mapsto> [oneRecord]]"

section \<open>Lemmas\<close>

subsection \<open>The classifier\<close>

lemma length_classifyWeeks: "length (classifyWeeks rp ws) = length ws"
  by (simp add: classifyWeeks_def Let_def)

lemma classifyWeeks_nth:
  assumes "i < length ws"
  shows "status (classifyWeeks rp ws ! i) = statusValue rp (firstOrderWeekIndex rp ws 0) i (ws ! i)"
    and "projectedStock (classifyWeeks rp ws ! i) = projectedStock (ws ! i)"
    and "isHistorical (classifyWeeks rp ws ! i) = isHistorical (ws ! i)"
    and "week (classifyWeeks rp ws ! i) = week (ws ! i)"
  using assms by (simp_all add: classifyWeeks_def Let_def)

lemma firstOrderWeekIndex_none:
  "(firstOrderWeekIndex rp ws i = - 1) = (\<forall>w\<in>set ws. \<not> orderLevel rp (projectedStock w))"
  by (induction ws arbitrary: i) auto

lemma firstOrderWeekIndex_some:
  "firstOrderWeekIndex rp ws i \<noteq> - 1 \<Longrightarrow>
     \<exists>k<length ws. firstOrderWeekIndex rp ws i = int (i + k)
        \<and> orderLevel rp (projectedStock (ws ! k))
        \<and> (\<forall>j<k. \<not> orderLevel rp (projectedStock (ws ! j)))"
proof (induction ws arbitrary: i)
  case Nil
  then show ?case by simp
next
  case (Cons w ws)
  show ?case
  proof (cases "orderLevel rp (projectedStock w)")
    case True
    then show ?thesis by (intro exI[of _ 0]) simp
  next
    case False
    with Cons.prems have "firstOrderWeekIndex rp ws (Suc i) \<noteq> - 1" by simp
    from Cons.IH[OF this] obtain k where k: "k < length ws"
      "firstOrderWeekIndex rp ws (Suc i) = int (Suc i + k)"
      "orderLevel rp (projectedStock (ws ! k))"
      "\<forall>j<k. \<not> orderLevel rp (projectedStock (ws ! j))" by blast
    show ?thesis
    proof (intro exI[of _ "Suc k"] conjI allI impI)
      fix j assume "j < Suc k"
      then show "\<not> orderLevel rp (projectedStock ((w # ws) ! j))"
        using False k(4) by (cases j) auto
    qed (use False k in auto)
  qed
qed

lemma filter_at_most_one:
  "(\<And>i j. i < length xs \<Longrightarrow> j < length xs \<Longrightarrow> P (xs ! i) \<Longrightarrow> P (xs ! j) \<Longrightarrow> i = j)
     \<Longrightarrow> length (filter P xs) \<le> 1"
proof (induction xs)
  case Nil
  then show ?case by simp
next
  case (Cons x xs)
  have IH: "length (filter P xs) \<le> 1"
  proof (rule Cons.IH)
    fix i j assume "i < length xs" "j < length xs" "P (xs ! i)" "P (xs ! j)"
    then have "Suc i = Suc j" by (intro Cons.prems) auto
    then show "i = j" by simp
  qed
  show ?case
  proof (cases "P x")
    case False
    with IH show ?thesis by simp
  next
    case True
    have "filter P xs = []"
    proof (rule ccontr)
      assume "filter P xs \<noteq> []"
      then obtain y where "y \<in> set xs" "P y"
        by (metis filter_False)
      then obtain k where "k < length xs" "xs ! k = y" by (auto simp: in_set_conv_nth)
      with True \<open>P y\<close> have "0 = Suc k" by (intro Cons.prems) auto
      then show False by simp
    qed
    with True show ?thesis by simp
  qed
qed

text \<open>The classification of week \<open>i\<close> in terms of the weeks at order level.\<close>

lemma classify_Order:
  "i < length ws \<Longrightarrow>
     (status (classifyWeeks rp ws ! i) = Order) = orderLevel rp (projectedStock (ws ! i))"
  by (simp add: classifyWeeks_nth statusValue_def)

lemma classify_Low:
  assumes "i < length ws" "status (classifyWeeks rp ws ! i) = Low"
  shows "Suc i < length ws \<and> orderLevel rp (projectedStock (ws ! Suc i))
         \<and> (\<forall>j\<le>i. \<not> orderLevel rp (projectedStock (ws ! j)))
         \<and> firstOrderWeekIndex rp ws 0 = int (Suc i)"
proof -
  from assms have f: "firstOrderWeekIndex rp ws 0 \<noteq> - 1"
    and e: "int i = firstOrderWeekIndex rp ws 0 - 1"
    by (auto simp: classifyWeeks_nth statusValue_def split: if_splits)
  from firstOrderWeekIndex_some[OF f] obtain k where k: "k < length ws"
    "firstOrderWeekIndex rp ws 0 = int (0 + k)" "orderLevel rp (projectedStock (ws ! k))"
    "\<forall>j<k. \<not> orderLevel rp (projectedStock (ws ! j))" by blast
  from e k(2) have "k = Suc i" by simp
  with k show ?thesis by (auto simp: less_Suc_eq_le)
qed

lemma classify_Enough_before:
  assumes "k < length ws" "orderLevel rp (projectedStock (ws ! k))"
    "\<forall>j<k. \<not> orderLevel rp (projectedStock (ws ! j))" "j < k" "Suc j \<noteq> k"
  shows "status (classifyWeeks rp ws ! j) = Enough"
proof -
  have f: "firstOrderWeekIndex rp ws 0 \<noteq> - 1"
    using assms(1,2) by (auto simp: firstOrderWeekIndex_none)
  from firstOrderWeekIndex_some[OF f] obtain k' where k: "k' < length ws"
    "firstOrderWeekIndex rp ws 0 = int (0 + k')" "orderLevel rp (projectedStock (ws ! k'))"
    "\<forall>j<k'. \<not> orderLevel rp (projectedStock (ws ! j))" by blast
  have "k' = k" using assms(2,3) k(3,4) by (meson linorder_neqE_nat)
  with k(2) assms show ?thesis
    by (auto simp: classifyWeeks_nth statusValue_def)
qed

subsection \<open>The projected stock of each week\<close>

lemma js_round_of_int: "js_round (real_of_int n) = n"
  unfolding js_round_def by linarith

lemma length_Mem_futureWeeks: "length (Mem_futureWeeks fc now i n s) = n"
  by (induction n arbitrary: i s) (simp_all add: Let_def)

lemma length_PG_futureWeeks: "length (PG_futureWeeks fc now i n s) = n"
  by (induction n arbitrary: i s) (simp_all add: Let_def)

lemma sum_take_Suc_drop:
  "i0 < length fc \<Longrightarrow>
     sum_list (take (Suc k) (drop i0 fc)) = fc ! i0 + sum_list (take k (drop (Suc i0) fc))"
proof -
  assume "i0 < length fc"
  then have "drop i0 fc = fc ! i0 # drop (Suc i0) fc"
    by (rule Cons_nth_drop_Suc[symmetric])
  then show ?thesis by simp
qed

lemma take1_drop:
  "i0 < length fc \<Longrightarrow> sum_list (take (Suc 0) (drop i0 fc)) = fc ! i0"
  by (simp add: sum_take_Suc_drop del: take_Suc_Cons)

lemma Mem_futureWeeks_nth:
  "i0 + n \<le> length fc \<Longrightarrow> k < n \<Longrightarrow>
     projectedStock (Mem_futureWeeks fc now i0 n (Some s) ! k)
       = Some (max 0 (s - sum_list (take (Suc k) (drop i0 fc))))
     \<and> \<not> isHistorical (Mem_futureWeeks fc now i0 n (Some s) ! k)"
proof (induction n arbitrary: i0 s k)
  case 0
  then show ?case by simp
next
  case (Suc n)
  from Suc.prems have lt: "i0 < length fc" by simp
  show ?case
  proof (cases k)
    case 0
    with lt show ?thesis
      by (simp add: Let_def js_index_def js_minus_def js_max0_def take1_drop
            del: take_Suc_Cons)
  next
    case (Suc k')
    with Suc.prems have "Suc i0 + n \<le> length fc" "k' < n" by simp_all
    from Suc.IH[OF this, of "s - fc ! i0"] Suc lt show ?thesis
      by (simp add: Let_def js_index_def js_minus_def sum_take_Suc_drop
            del: take_Suc_Cons)
  qed
qed

lemma PG_futureWeeks_nth:
  "k < n \<Longrightarrow>
     projectedStock (PG_futureWeeks fc now i0 n s ! k)
       = Some (max 0 (s - sum_list (take (Suc k) (drop i0 fc))))
     \<and> \<not> isHistorical (PG_futureWeeks fc now i0 n s ! k)"
proof (induction n arbitrary: i0 s k)
  case 0
  then show ?case by simp
next
  case (Suc n)
  show ?case
  proof (cases "i0 < length fc")
    case lt: True
    show ?thesis
    proof (cases k)
      case 0
      with lt show ?thesis
        by (simp add: Let_def js_index_def js_round_of_int take1_drop del: take_Suc_Cons)
    next
      case (Suc k')
      with Suc.prems have "k' < n" by simp
      from Suc.IH[OF this, of "Suc i0" "s - fc ! i0"] Suc lt show ?thesis
        by (simp add: Let_def js_index_def sum_take_Suc_drop del: take_Suc_Cons)
    qed
  next
    case ge: False
    show ?thesis
    proof (cases k)
      case 0
      with ge show ?thesis
        by (simp add: Let_def js_index_def js_round_of_int)
    next
      case (Suc k')
      with Suc.prems have "k' < n" by simp
      from Suc.IH[OF this, of "Suc i0" "s"] Suc ge show ?thesis
        by (simp add: Let_def js_index_def)
    qed
  qed
qed

lemma length_Mem_allWeeks: "length (Mem_allWeeks dh item fc now) = 12"
  by (simp add: Mem_allWeeks_def Let_def length_Mem_futureWeeks)

lemma length_PG_allWeeks: "length (PG_allWeeks item fc now) = 12"
  by (simp add: PG_allWeeks_def Let_def length_PG_futureWeeks)

lemma lt4_cases: "j < 4 \<Longrightarrow> j = 0 \<or> j = Suc 0 \<or> j = 2 \<or> j = (3::nat)"
  by arith

lemma Mem_allWeeks_hist:
  assumes "j < 4"
  shows "projectedStock (Mem_allWeeks dh item fc now ! j)
           = Some (max 0 \<lfloor>real_of_int (currentStock item)
                + Mem_calculateWeeklyDemand (Mem_history dh item) now * real (4 - j)\<rfloor>)"
    and "isHistorical (Mem_allWeeks dh item fc now ! j)"
  using lt4_cases[OF assms]
  by (auto simp: Mem_allWeeks_def Let_def Mem_historicalWeek_def nth_append)

lemma Mem_allWeeks_future:
  assumes "length fc = 8" "4 \<le> j" "j < 12"
  shows "projectedStock (Mem_allWeeks dh item fc now ! j)
           = Some (max 0 (currentStock item - sum_list (take (j - 3) fc)))"
    and "\<not> isHistorical (Mem_allWeeks dh item fc now ! j)"
proof -
  have idx: "Mem_allWeeks dh item fc now ! j
               = Mem_futureWeeks fc now 0 8 (Some (currentStock item)) ! (j - 4)"
  proof -
    have e: "j - Suc (Suc (Suc (Suc 0))) = j - 4" by simp
    show ?thesis using assms(2) by (simp add: Mem_allWeeks_def Let_def nth_append e)
  qed
  have k: "j - 4 < 8" "0 + 8 \<le> length fc" and s: "Suc (j - 4) = j - 3"
    using assms by simp_all
  from Mem_futureWeeks_nth[OF k(2,1), of now "currentStock item"]
  show "projectedStock (Mem_allWeeks dh item fc now ! j)
           = Some (max 0 (currentStock item - sum_list (take (j - 3) fc)))"
    and "\<not> isHistorical (Mem_allWeeks dh item fc now ! j)"
    unfolding idx s by simp_all
qed

lemma PG_weeklyDemand_empty: "PG_calculateWeeklyDemand [] = 0"
  by (simp add: PG_calculateWeeklyDemand_def)

lemma PG_allWeeks_hist:
  assumes "j < 4"
  shows "projectedStock (PG_allWeeks item fc now ! j) = Some (max 0 (currentStock item))"
    and "isHistorical (PG_allWeeks item fc now ! j)"
  using lt4_cases[OF assms]
  by (auto simp: PG_allWeeks_def Let_def PG_historicalWeek_def nth_append
        PG_weeklyDemand_empty js_round_of_int)

lemma PG_allWeeks_future:
  assumes "4 \<le> j" "j < 12"
  shows "projectedStock (PG_allWeeks item fc now ! j)
           = Some (max 0 (currentStock item - sum_list (take (j - 3) fc)))"
    and "\<not> isHistorical (PG_allWeeks item fc now ! j)"
proof -
  have idx: "PG_allWeeks item fc now ! j
               = PG_futureWeeks fc now 0 8 (currentStock item) ! (j - 4)"
  proof -
    have e: "j - Suc (Suc (Suc (Suc 0))) = j - 4" by simp
    show ?thesis using assms(1) by (simp add: PG_allWeeks_def Let_def nth_append e)
  qed
  have k: "j - 4 < 8" and s: "Suc (j - 4) = j - 3"
    using assms by simp_all
  from PG_futureWeeks_nth[OF k, of fc now 0 "currentStock item"]
  show "projectedStock (PG_allWeeks item fc now ! j)
           = Some (max 0 (currentStock item - sum_list (take (j - 3) fc)))"
    and "\<not> isHistorical (PG_allWeeks item fc now ! j)"
    unfolding idx s by simp_all
qed

subsection \<open>Aggregation, forecast and the order of the stock levels\<close>

lemma foldl_add_int: "foldl (\<lambda>sum (total::int). sum + total) a xs = a + sum_list xs"
  by (induction xs arbitrary: a) simp_all

lemma foldl_quantity: "foldl (\<lambda>sum d. sum + quantity d) a ds = a + sum_list (map quantity ds)"
  by (induction ds arbitrary: a) simp_all

lemma foldl_sq:
  "foldl (\<lambda>sum (total::int). sum + (real_of_int total - avg)\<^sup>2) a xs
     = a + sum_list (map (\<lambda>t. (real_of_int t - avg)\<^sup>2) xs)"
  by (induction xs arbitrary: a) simp_all

lemma length_Mem_weeklyTotals: "length (Mem_weeklyTotals demands now) = 12"
  by (simp add: Mem_weeklyTotals_def)

lemma Mem_weekTotal_nonneg:
  "\<forall>d\<in>set demands. 0 \<le> quantity d \<Longrightarrow> 0 \<le> Mem_weekTotal demands now w"
  by (auto simp: Mem_weekTotal_def Let_def foldl_quantity intro!: sum_list_nonneg)

lemma Mem_weeklyDemand_nonneg:
  assumes "\<forall>d\<in>set demands. 0 \<le> quantity d"
  shows "0 \<le> Mem_calculateWeeklyDemand demands now"
proof -
  have "0 \<le> sum_list (Mem_weeklyTotals demands now)"
    unfolding Mem_weeklyTotals_def
    by (rule sum_list_nonneg) (use assms Mem_weekTotal_nonneg in auto)
  then show ?thesis
    by (simp add: Mem_calculateWeeklyDemand_def Let_def foldl_add_int)
qed

lemma length_Mem_generateForecast: "length (Mem_generateForecast item demands now) = 8"
  by (simp add: Mem_generateForecast_def Let_def)

lemma Mem_generateForecast_nonneg: "\<forall>f\<in>set (Mem_generateForecast item demands now). 0 \<le> f"
  by (auto simp: Mem_generateForecast_def Let_def)

lemma js_round_nonneg: "0 \<le> x \<Longrightarrow> 0 \<le> js_round x"
  unfolding js_round_def by simp

lemma PG_generateForecast_nonneg: "\<forall>f\<in>set (PG_generateForecast item demands). 0 \<le> f"
  by (auto simp: PG_generateForecast_def Let_def intro!: js_round_nonneg)

lemma sum_take_mono:
  assumes "\<forall>f\<in>set fc. (0::int) \<le> f" "a \<le> b"
  shows "sum_list (take a fc) \<le> sum_list (take b fc)"
proof -
  from assms(2) obtain c where b: "b = a + c" by (auto simp: le_iff_add)
  have "\<forall>f\<in>set (take c (drop a fc)). 0 \<le> f"
    using assms(1) by (meson in_set_dropD in_set_takeD)
  then have "0 \<le> sum_list (take c (drop a fc))" by (simp add: sum_list_nonneg)
  then show ?thesis unfolding b take_add by simp
qed

lemma sum_take_nonneg:
  "\<forall>f\<in>set fc. (0::int) \<le> f \<Longrightarrow> 0 \<le> sum_list (take a fc)"
  using sum_take_mono[of fc 0 a] by simp

lemma orderLevel_mono: "orderLevel rp (Some a) \<Longrightarrow> b \<le> a \<Longrightarrow> orderLevel rp (Some b)"
  by (auto simp: orderLevel_def)

lemma Mem_stock_mono:
  assumes len: "length fc = 8" and fc: "\<forall>f\<in>set fc. 0 \<le> f"
    and wd: "0 \<le> Mem_calculateWeeklyDemand (Mem_history dh item) now"
    and jk: "j \<le> k" "k < 12"
  shows "\<exists>a b. projectedStock (Mem_allWeeks dh item fc now ! j) = Some a
           \<and> projectedStock (Mem_allWeeks dh item fc now ! k) = Some b \<and> b \<le> a"
proof -
  let ?wd = "Mem_calculateWeeklyDemand (Mem_history dh item) now"
  let ?cs = "currentStock item"
  consider (hh) "k < 4" | (hf) "j < 4" "4 \<le> k" | (ff) "4 \<le> j" by linarith
  then show ?thesis
  proof cases
    case hh
    then have j: "j < 4" using jk by simp
    have "?wd * real (4 - k) \<le> ?wd * real (4 - j)"
      using wd jk by (intro mult_left_mono) simp_all
    then have "\<lfloor>real_of_int ?cs + ?wd * real (4 - k)\<rfloor> \<le> \<lfloor>real_of_int ?cs + ?wd * real (4 - j)\<rfloor>"
      by (intro floor_mono) simp
    then show ?thesis
      by (simp add: Mem_allWeeks_hist[OF hh] Mem_allWeeks_hist[OF j])
  next
    case hf
    define h where "h = \<lfloor>real_of_int ?cs + ?wd * real (4 - j)\<rfloor>"
    have "0 \<le> ?wd * real (4 - j)" using wd by simp
    then have h: "?cs \<le> h" unfolding h_def by (simp add: le_floor_iff)
    have s: "0 \<le> sum_list (take (k - 3) fc)" by (rule sum_take_nonneg[OF fc])
    have "projectedStock (Mem_allWeeks dh item fc now ! j) = Some (max 0 h)"
      unfolding h_def by (rule Mem_allWeeks_hist[OF hf(1)])
    moreover have "max 0 (?cs - sum_list (take (k - 3) fc)) \<le> max 0 h"
      using h s by linarith
    ultimately show ?thesis
      by (simp add: Mem_allWeeks_future[OF len hf(2) jk(2)])
  next
    case ff
    then have k: "4 \<le> k" and j: "j < 12" using jk by simp_all
    have "sum_list (take (j - 3) fc) \<le> sum_list (take (k - 3) fc)"
      using jk by (intro sum_take_mono[OF fc]) simp
    then show ?thesis
      by (simp add: Mem_allWeeks_future[OF len ff j] Mem_allWeeks_future[OF len k jk(2)])
  qed
qed

lemma PG_stock_mono:
  assumes fc: "\<forall>f\<in>set fc. 0 \<le> f" and jk: "j \<le> k" "k < 12"
  shows "\<exists>a b. projectedStock (PG_allWeeks item fc now ! j) = Some a
           \<and> projectedStock (PG_allWeeks item fc now ! k) = Some b \<and> b \<le> a"
proof -
  let ?cs = "currentStock item"
  consider (hh) "k < 4" | (hf) "j < 4" "4 \<le> k" | (ff) "4 \<le> j" by linarith
  then show ?thesis
  proof cases
    case hh
    then have j: "j < 4" using jk by simp
    show ?thesis
      by (simp add: PG_allWeeks_hist[OF hh] PG_allWeeks_hist[OF j])
  next
    case hf
    have "0 \<le> sum_list (take (k - 3) fc)" by (rule sum_take_nonneg[OF fc])
    then show ?thesis
      by (simp add: PG_allWeeks_hist[OF hf(1)] PG_allWeeks_future[OF hf(2) jk(2)])
  next
    case ff
    then have k: "4 \<le> k" and j: "j < 12" using jk by simp_all
    have "sum_list (take (j - 3) fc) \<le> sum_list (take (k - 3) fc)"
      using jk by (intro sum_take_mono[OF fc]) simp
    then show ?thesis
      by (simp add: PG_allWeeks_future[OF ff j] PG_allWeeks_future[OF k jk(2)])
  qed
qed

text \<open>The rule of the first week at order level, for a non-increasing stock sequence.\<close>

lemma classify_after_first:
  assumes mono: "\<And>j k. j \<le> k \<Longrightarrow> k < length ws \<Longrightarrow>
             \<exists>a b. projectedStock (ws ! j) = Some a \<and> projectedStock (ws ! k) = Some b \<and> b \<le> a"
    and k: "k < length ws" "orderLevel rp (projectedStock (ws ! k))"
    and j: "k \<le> j" "j < length ws"
  shows "status (classifyWeeks rp ws ! j) = Order"
proof -
  from mono[OF j] obtain a b where
    "projectedStock (ws ! k) = Some a" "projectedStock (ws ! j) = Some b" "b \<le> a" by blast
  with k(2) have "orderLevel rp (projectedStock (ws ! j))"
    by (auto intro: orderLevel_mono)
  then show ?thesis by (simp add: classify_Order[OF j(2)])
qed

lemma classify_Low_before:
  assumes "k < length ws" "orderLevel rp (projectedStock (ws ! k))"
    "\<forall>j<k. \<not> orderLevel rp (projectedStock (ws ! j))" "Suc j = k"
  shows "status (classifyWeeks rp ws ! j) = Low"
proof -
  have f: "firstOrderWeekIndex rp ws 0 \<noteq> - 1"
    using assms(1,2) by (auto simp: firstOrderWeekIndex_none)
  from firstOrderWeekIndex_some[OF f] obtain k' where k: "k' < length ws"
    "firstOrderWeekIndex rp ws 0 = int (0 + k')" "orderLevel rp (projectedStock (ws ! k'))"
    "\<forall>j<k'. \<not> orderLevel rp (projectedStock (ws ! j))" by blast
  have "k' = k" using assms(2,3) k(3,4) by (meson linorder_neqE_nat)
  with k(2) assms show ?thesis
    by (auto simp: classifyWeeks_nth statusValue_def)
qed

subsection \<open>The properties, for a classified sequence\<close>

lemma lowRule_classifyWeeks: "lowRule (classifyWeeks rp ws)"
proof -
  let ?cs = "classifyWeeks rp ws"
  have len: "length ?cs = length ws" by (rule length_classifyWeeks)
  have one: "length (filter (\<lambda>w. status w = Low) ?cs) \<le> 1"
  proof (rule filter_at_most_one)
    fix i j assume "i < length ?cs" "j < length ?cs"
      "status (?cs ! i) = Low" "status (?cs ! j) = Low"
    then have "firstOrderWeekIndex rp ws 0 = int (Suc i)"
      "firstOrderWeekIndex rp ws 0 = int (Suc j)"
      using classify_Low[of i ws rp] classify_Low[of j ws rp] len by simp_all
    then show "i = j" by simp
  qed
  have next_order: "Suc i < length ?cs \<and> status (?cs ! Suc i) = Order
      \<and> (\<forall>j<i. status (?cs ! j) \<noteq> Order)"
    if "i < length ?cs" "status (?cs ! i) = Low" for i
  proof -
    from that len have i: "i < length ws" by simp
    from classify_Low[OF i that(2)] have a: "Suc i < length ws"
      "orderLevel rp (projectedStock (ws ! Suc i))"
      "\<forall>j\<le>i. \<not> orderLevel rp (projectedStock (ws ! j))" by simp_all
    have "status (?cs ! j) \<noteq> Order" if "j < i" for j
      using that a(3) i by (simp add: classify_Order)
    with a show ?thesis by (simp add: len classify_Order)
  qed
  have none: "\<forall>w\<in>set ?cs. status w \<noteq> Low" if "\<forall>w\<in>set ?cs. status w \<noteq> Order"
  proof
    fix w assume "w \<in> set ?cs"
    then obtain i where i: "i < length ?cs" "?cs ! i = w" by (auto simp: in_set_conv_nth)
    show "status w \<noteq> Low"
    proof
      assume "status w = Low"
      with i next_order[of i] have "Suc i < length ?cs" "status (?cs ! Suc i) = Order"
        by simp_all
      with that show False by (metis nth_mem)
    qed
  qed
  show ?thesis unfolding lowRule_def using one next_order none by blast
qed

lemma stocksNonNegative_classify:
  assumes "length ws = 12"
    and "\<And>j. j < 12 \<Longrightarrow> \<exists>s. projectedStock (ws ! j) = Some s \<and> 0 \<le> s"
  shows "stocksNonNegative (classifyWeeks rp ws)"
  unfolding stocksNonNegative_def
proof (intro conjI ballI)
  show "length (classifyWeeks rp ws) = 12" by (simp add: length_classifyWeeks assms(1))
next
  fix w assume "w \<in> set (classifyWeeks rp ws)"
  then obtain i where i: "i < 12" "classifyWeeks rp ws ! i = w"
    by (auto simp: in_set_conv_nth length_classifyWeeks assms(1))
  with assms(2)[OF i(1)] show "\<exists>s. projectedStock w = Some s \<and> 0 \<le> s"
    using classifyWeeks_nth(2)[of i ws rp] assms(1) by auto
qed

lemma Mem_stock_nonneg:
  assumes "length fc = 8" "j < 12"
  shows "\<exists>s. projectedStock (Mem_allWeeks dh item fc now ! j) = Some s \<and> 0 \<le> s"
proof (cases "j < 4")
  case True
  then show ?thesis by (simp add: Mem_allWeeks_hist)
next
  case False
  then have "4 \<le> j" by simp
  from Mem_allWeeks_future(1)[OF assms(1) this assms(2)] show ?thesis by simp
qed

lemma PG_stock_nonneg:
  assumes "j < 12"
  shows "\<exists>s. projectedStock (PG_allWeeks item fc now ! j) = Some s \<and> 0 \<le> s"
proof (cases "j < 4")
  case True
  then show ?thesis by (simp add: PG_allWeeks_hist)
next
  case False
  then have "4 \<le> j" by simp
  from PG_allWeeks_future(1)[OF this assms] show ?thesis by simp
qed

lemma nonIncreasing_classify:
  assumes "length ws = 12"
    and "\<And>j k. j \<le> k \<Longrightarrow> k < 12 \<Longrightarrow>
           \<exists>a b. projectedStock (ws ! j) = Some a \<and> projectedStock (ws ! k) = Some b \<and> b \<le> a"
  shows "nonIncreasingStock (classifyWeeks rp ws)"
  unfolding nonIncreasingStock_def
proof (intro conjI allI impI)
  show "length (classifyWeeks rp ws) = 12" by (simp add: length_classifyWeeks assms(1))
next
  fix j :: nat assume j: "j < 11"
  then have "j \<le> Suc j" "Suc j < 12" by simp_all
  from assms(2)[OF this] j assms(1)
  show "\<exists>a b. projectedStock (classifyWeeks rp ws ! j) = Some a
          \<and> projectedStock (classifyWeeks rp ws ! Suc j) = Some b \<and> b \<le> a"
    by (simp add: classifyWeeks_nth)
qed

lemma firstOrderRule_classify:
  assumes len: "length ws = 12"
    and mono: "\<And>j k. j \<le> k \<Longrightarrow> k < 12 \<Longrightarrow>
           \<exists>a b. projectedStock (ws ! j) = Some a \<and> projectedStock (ws ! k) = Some b \<and> b \<le> a"
  shows "firstOrderRule rp (classifyWeeks rp ws)"
  unfolding firstOrderRule_def
proof (intro conjI allI impI)
  show "length (classifyWeeks rp ws) = 12" by (simp add: length_classifyWeeks len)
next
  fix k j :: nat
  assume k: "k < 12" and h: "orderLevel rp (projectedStock (classifyWeeks rp ws ! k))
     \<and> (\<forall>j<k. \<not> orderLevel rp (projectedStock (classifyWeeks rp ws ! j)))"
    and j: "j < 12" "k \<le> j"
  from h k len have "orderLevel rp (projectedStock (ws ! k))"
    by (simp add: classifyWeeks_nth)
  with mono k j len show "status (classifyWeeks rp ws ! j) = Order"
    by (intro classify_after_first) simp_all
next
  fix k j :: nat
  assume k: "k < 12" and h: "orderLevel rp (projectedStock (classifyWeeks rp ws ! k))
     \<and> (\<forall>j<k. \<not> orderLevel rp (projectedStock (classifyWeeks rp ws ! j)))"
    and j: "j < k"
  from h k len have o: "orderLevel rp (projectedStock (ws ! k))"
    and b: "\<forall>j<k. \<not> orderLevel rp (projectedStock (ws ! j))"
    by (simp_all add: classifyWeeks_nth)
  show "status (classifyWeeks rp ws ! j) = (if Suc j = k then Low else Enough)"
  proof (cases "Suc j = k")
    case True
    with classify_Low_before[of k ws rp j] k len o b show ?thesis by simp
  next
    case False
    with classify_Enough_before[of k ws rp j] k len o b j show ?thesis by simp
  qed
qed

subsection \<open>Evaluation on the sample data\<close>

lemma Mem_oneRecord_weeklyDemand: "Mem_calculateWeeklyDemand [oneRecord] now0 = 84"
  by (simp add: Mem_calculateWeeklyDemand_def Mem_weeklyTotals_def Mem_weekTotal_def
        Mem_inWeek_def oneRecord_def now0_def dayMs_def
        upt_rec[of _ "numeral _"] upt_rec[of _ "Suc _"])

lemma Mem_forecast_empty: "Mem_generateForecast item [] t = [0, 0, 0, 0, 0, 0, 0, 0]"
  by (simp add: Mem_generateForecast_def Mem_calculateWeeklyDemand_def
        Mem_calculateDemandVariability_def Mem_weeklyTotals_def Mem_weekTotal_def
        upt_rec[of _ "numeral _"] upt_rec[of _ "Suc _"])

lemma Mem_allWeeks_explicit:
  "map projectedStock (Mem_allWeeks dh item [f0, f1, f2, f3, f4, f5, f6, f7] now)
     = (let wd = Mem_calculateWeeklyDemand (Mem_history dh item) now;
            cs = currentStock item
        in [Some (max 0 \<lfloor>real_of_int cs + wd * 4\<rfloor>), Some (max 0 \<lfloor>real_of_int cs + wd * 3\<rfloor>),
            Some (max 0 \<lfloor>real_of_int cs + wd * 2\<rfloor>), Some (max 0 \<lfloor>real_of_int cs + wd\<rfloor>),
            Some (max 0 (cs - f0)), Some (max 0 (cs - f0 - f1)),
            Some (max 0 (cs - f0 - f1 - f2)), Some (max 0 (cs - f0 - f1 - f2 - f3)),
            Some (max 0 (cs - f0 - f1 - f2 - f3 - f4)),
            Some (max 0 (cs - f0 - f1 - f2 - f3 - f4 - f5)),
            Some (max 0 (cs - f0 - f1 - f2 - f3 - f4 - f5 - f6)),
            Some (max 0 (cs - f0 - f1 - f2 - f3 - f4 - f5 - f6 - f7))])"
  by (simp add: Mem_allWeeks_def Mem_historicalWeek_def eval_nat_numeral js_index_def
        js_minus_def js_max0_def Let_def)

lemma projectedStock_classifyWeeks:
  "map projectedStock (classifyWeeks rp ws) = map projectedStock ws"
  by (rule nth_equalityI) (simp_all add: length_classifyWeeks classifyWeeks_nth)

lemma stock_nth:
  "map projectedStock ws = ps \<Longrightarrow> j < length ps \<Longrightarrow> projectedStock (ws ! j) = ps ! j"
  by (metis length_map nth_map)

lemma oneRecord_stocks:
  "map projectedStock (Mem_generateStockStatus oneRecordStore usbCable [0, 0, 0, 0, 0, 0, 0, 0] now0)
     = [Some 381, Some 297, Some 213, Some 129, Some 45, Some 45, Some 45, Some 45,
        Some 45, Some 45, Some 45, Some 45]"
  by (simp add: Mem_generateStockStatus_def projectedStock_classifyWeeks
        Mem_allWeeks_explicit Let_def Mem_history_def oneRecordStore_def
        Mem_oneRecord_weeklyDemand usbCable_def)

subsection \<open>The one-record sample\<close>

lemma Mem_oneRecord_variability: "Mem_calculateDemandVariability [oneRecord] now0 = sqrt 77616"
  by (simp add: Mem_calculateDemandVariability_def Mem_weeklyTotals_def Mem_weekTotal_def
        Mem_inWeek_def oneRecord_def now0_def dayMs_def
        upt_rec[of _ "numeral _"] upt_rec[of _ "Suc _"])

subsection \<open>The two weekly means\<close>

lemma Mem_weekTotal_spec: "Mem_weekTotal demands now w = spec_bucketTotal demands now w"
proof -
  have e: "now - (int w * 7 + 7) * dayMs = now - 7 * (int w + 1) * dayMs"
    by (simp add: algebra_simps)
  show ?thesis
    unfolding Mem_weekTotal_def spec_bucketTotal_def Let_def foldl_quantity
    by (simp add: sum_list_map_filter' Mem_inWeek_def Let_def e)
qed

lemma Mem_weeklyDemand_spec:
  "Mem_calculateWeeklyDemand demands now = spec_weeklyDemand demands now"
proof -
  have "Mem_weekTotal demands now = spec_bucketTotal demands now"
    by (rule ext) (rule Mem_weekTotal_spec)
  then show ?thesis
    by (simp add: Mem_calculateWeeklyDemand_def spec_weeklyDemand_def Let_def foldl_add_int
          Mem_weeklyTotals_def)
qed

lemma sum_snd_update:
  "sum_list (map snd (AList.update k v al))
     = sum_list (map snd al) + v - (case map_of al k of None \<Rightarrow> 0 | Some (t::int) \<Rightarrow> t)"
  by (induction al) auto

lemma PG_addDemand_sum:
  "sum_list (map snd (PG_addDemand al d)) = sum_list (map snd al) + quantity d"
  by (simp add: PG_addDemand_def Let_def sum_snd_update)

lemma PG_addDemand_keys:
  "fst ` set (PG_addDemand al d) = insert (PG_getWeekKey (date d)) (fst ` set al)"
  by (simp add: PG_addDemand_def Let_def dom_update)

lemma PG_addDemand_distinct:
  "distinct (map fst al) \<Longrightarrow> distinct (map fst (PG_addDemand al d))"
  by (simp add: PG_addDemand_def Let_def distinct_update)

lemma PG_fold_invariant:
  "sum_list (map snd (foldl PG_addDemand al ds))
     = sum_list (map snd al) + sum_list (map quantity ds)
   \<and> fst ` set (foldl PG_addDemand al ds)
       = fst ` set al \<union> (\<lambda>d. PG_getWeekKey (date d)) ` set ds
   \<and> (distinct (map fst al) \<longrightarrow> distinct (map fst (foldl PG_addDemand al ds)))"
proof (induction ds arbitrary: al)
  case Nil
  then show ?case by simp
next
  case (Cons d ds)
  from Cons.IH[of "PG_addDemand al d"] show ?case
    by (auto simp: PG_addDemand_sum PG_addDemand_keys PG_addDemand_distinct)
qed

lemma PG_weeklyTotals_sum:
  "sum_list (map snd (PG_weeklyTotals ds)) = sum_list (map quantity ds)"
  using PG_fold_invariant[of "[]" ds] by (simp add: PG_weeklyTotals_def)

lemma PG_weeklyTotals_length:
  "length (PG_weeklyTotals ds) = card ((\<lambda>d. PG_getWeekKey (date d)) ` set ds)"
proof -
  from PG_fold_invariant[of "[]" ds]
  have k: "fst ` set (PG_weeklyTotals ds) = (\<lambda>d. PG_getWeekKey (date d)) ` set ds"
    and d: "distinct (map fst (PG_weeklyTotals ds))"
    by (simp_all add: PG_weeklyTotals_def)
  from distinct_card[OF d] k show ?thesis by simp
qed

lemma PG_weeklyDemand_closed:
  "PG_calculateWeeklyDemand ds
     = (if ds = [] then 0
        else real_of_int (sum_list (map quantity ds))
               / real (card ((\<lambda>d. PG_getWeekKey (date d)) ` set ds)))"
proof (cases "ds = []")
  case True
  then show ?thesis by (simp add: PG_calculateWeeklyDemand_def)
next
  case False
  then have "0 < card ((\<lambda>d. PG_getWeekKey (date d)) ` set ds)"
    by (simp add: card_gt_0_iff)
  then have "PG_weeklyTotals ds \<noteq> []"
    using PG_weeklyTotals_length[of ds] by auto
  with False show ?thesis
    by (simp add: PG_calculateWeeklyDemand_def Let_def foldl_add_int
          PG_weeklyTotals_sum PG_weeklyTotals_length)
qed

subsection \<open>The variability of a history of at most one record\<close>

lemma Mem_variability_empty: "Mem_calculateDemandVariability [] now = 0"
proof -
  have "Mem_weeklyTotals [] now = map (\<lambda>w. 0) [0..<12]"
    unfolding Mem_weeklyTotals_def by (intro map_cong) (simp_all add: Mem_weekTotal_def)
  then show ?thesis
    by (simp add: Mem_calculateDemandVariability_def Let_def foldl_add_int foldl_sq
          comp_def del: upt_Suc)
qed

lemma Mem_weekTotal_single:
  "Mem_weekTotal [d] now w = (if Mem_inWeek now w d then quantity d else 0)"
  by (simp add: Mem_weekTotal_def)

lemma Mem_inWeek_unique:
  assumes "Mem_inWeek now w d" "Mem_inWeek now w' d"
  shows "w = w'"
proof (rule ccontr)
  assume "w \<noteq> w'"
  then consider "int w + 1 \<le> int w'" | "int w' + 1 \<le> int w" by linarith
  then show False
    using assms by cases (simp_all add: Mem_inWeek_def Let_def dayMs_def)
qed

lemma sum_list_upt_delta:
  fixes a b :: "'a::comm_monoid_add"
  shows "sum_list (map (\<lambda>w. if w = w0 then a else 0) [0..<n]) = (if w0 < n then a else 0)"
  by (simp add: interv_sum_list_conv_sum_set_nat)

lemma sum_list_upt_two:
  fixes a b :: real
  assumes "w0 < n"
  shows "sum_list (map (\<lambda>w. if w = w0 then a else b) [0..<n]) = a + (real n - 1) * b"
proof -
  have "(\<lambda>w. if w = w0 then a else b) = (\<lambda>w. b + (if w = w0 then a - b else 0))"
    by auto
  then have "sum_list (map (\<lambda>w. if w = w0 then a else b) [0..<n])
        = sum_list (map (\<lambda>w. b + (if w = w0 then a - b else 0)) [0..<n])"
    by simp
  also have "\<dots> = real n * b + (a - b)"
    using assms
    by (simp add: interv_sum_list_conv_sum_set_nat sum.distrib)
  finally show ?thesis by (simp add: algebra_simps)
qed

lemma Mem_variability_single_outside:
  assumes "\<not> (\<exists>w<12. Mem_inWeek now w d)"
  shows "Mem_calculateDemandVariability [d] now = 0"
proof -
  have "Mem_weeklyTotals [d] now = map (\<lambda>w. 0) [0..<12]"
    unfolding Mem_weeklyTotals_def using assms
    by (intro map_cong) (simp_all add: Mem_weekTotal_single)
  then show ?thesis
    by (simp add: Mem_calculateDemandVariability_def Let_def foldl_add_int foldl_sq
          comp_def del: upt_Suc)
qed

lemma Mem_weeklyTotals_single_inside:
  assumes "w0 < 12" "Mem_inWeek now w0 d"
  shows "Mem_weeklyTotals [d] now = map (\<lambda>w. if w = w0 then quantity d else 0) [0..<12]"
  unfolding Mem_weeklyTotals_def
proof (intro map_cong refl)
  fix w
  show "Mem_weekTotal [d] now w = (if w = w0 then quantity d else 0)"
  proof (cases "w = w0")
    case True
    with assms(2) show ?thesis by (simp add: Mem_weekTotal_single)
  next
    case False
    with Mem_inWeek_unique[OF _ assms(2), of w] have "\<not> Mem_inWeek now w d" by blast
    with False show ?thesis by (simp add: Mem_weekTotal_single)
  qed
qed

lemma Mem_variability_single_inside:
  assumes w0: "w0 < 12" "Mem_inWeek now w0 d"
  shows "Mem_calculateDemandVariability [d] now = \<bar>real_of_int (quantity d)\<bar> * sqrt 11 / 12"
proof -
  define q where "q = real_of_int (quantity d)"
  note t = Mem_weeklyTotals_single_inside[OF w0]
  have s: "sum_list (Mem_weeklyTotals [d] now) = quantity d"
    unfolding t using w0(1) by (simp add: sum_list_upt_delta del: upt_Suc)
  have l: "length (Mem_weeklyTotals [d] now) = 12" by (rule length_Mem_weeklyTotals)
  have "map (\<lambda>t. (real_of_int t - q / 12)\<^sup>2) (Mem_weeklyTotals [d] now)
          = map (\<lambda>w. if w = w0 then (q - q / 12)\<^sup>2 else (q / 12)\<^sup>2) [0..<12]"
    unfolding t map_map by (intro map_cong refl) (simp add: q_def)
  then have "sum_list (map (\<lambda>t. (real_of_int t - q / 12)\<^sup>2) (Mem_weeklyTotals [d] now))
          = (q - q / 12)\<^sup>2 + (real 12 - 1) * (q / 12)\<^sup>2"
    using sum_list_upt_two[OF w0(1), of "(q - q / 12)\<^sup>2" "(q / 12)\<^sup>2"] by (simp only:)
  also have "\<dots> = 12 * (\<bar>q\<bar> * sqrt 11 / 12)\<^sup>2"
    by (simp add: power2_eq_square algebra_simps)
  finally have v: "sum_list (map (\<lambda>t. (real_of_int t - q / 12)\<^sup>2)
                     (Mem_weeklyTotals [d] now)) / 12 = (\<bar>q\<bar> * sqrt 11 / 12)\<^sup>2"
    by simp
  have "Mem_calculateDemandVariability [d] now
          = sqrt (sum_list (map (\<lambda>t. (real_of_int t - q / 12)\<^sup>2)
                     (Mem_weeklyTotals [d] now)) / 12)"
    unfolding Mem_calculateDemandVariability_def Let_def foldl_add_int foldl_sq l s q_def
    by simp
  also have "\<dots> = sqrt ((\<bar>q\<bar> * sqrt 11 / 12)\<^sup>2)" by (simp only: v)
  also have "\<dots> = \<bar>q\<bar> * sqrt 11 / 12" by simp
  finally show ?thesis by (simp only: q_def)
qed

lemma Mem_variability_single:
  "Mem_calculateDemandVariability [d] now
     = (if \<exists>w<12. Mem_inWeek now w d then \<bar>real_of_int (quantity d)\<bar> * sqrt 11 / 12 else 0)"
proof (cases "\<exists>w<12. Mem_inWeek now w d")
  case False
  from Mem_variability_single_outside[OF False] show ?thesis by (simp only: False if_False)
next
  case True
  then obtain w0 where "w0 < 12" "Mem_inWeek now w0 d" by blast
  from Mem_variability_single_inside[OF this] show ?thesis by (simp only: True if_True)
qed

lemma PG_variability_short: "length ds < 2 \<Longrightarrow> PG_calculateDemandVariability ds = 0"
  by (simp add: PG_calculateDemandVariability_def)

subsection \<open>The weekly sample history through both pipelines\<close>

lemma list12:
  "length xs = 12 \<Longrightarrow>
     xs = [xs ! 0, xs ! 1, xs ! 2, xs ! 3, xs ! 4, xs ! 5, xs ! 6, xs ! 7, xs ! 8, xs ! 9,
           xs ! 10, xs ! 11]"
  by (auto simp: eval_nat_numeral length_Suc_conv)

lemma filter_map_length:
  "length (filter (\<lambda>s. P (f s)) xs) = length (filter P (map f xs))"
  by (induction xs) simp_all

lemma findIndexFrom_map:
  "findIndexFrom (\<lambda>s. P (f s)) xs i = findIndexFrom P (map f xs) i"
  by (induction xs arbitrary: i) simp_all

lemma Mem_weekly_totals: "Mem_weeklyTotals weeklyRecords now0 = replicate 12 84"
  by (simp add: Mem_weeklyTotals_def Mem_weekTotal_def Mem_inWeek_def weeklyRecords_def
        now0_def dayMs_def eval_nat_numeral upt_rec[of _ "Suc _"])

lemma Mem_weekly_demand: "Mem_calculateWeeklyDemand weeklyRecords now0 = 84"
  by (simp add: Mem_calculateWeeklyDemand_def Mem_weekly_totals eval_nat_numeral)

lemma Mem_weekly_variability: "Mem_calculateDemandVariability weeklyRecords now0 = 0"
  by (simp add: Mem_calculateDemandVariability_def Mem_weekly_totals eval_nat_numeral)


lemma Mem_weekly_forecast:
  "\<forall>f\<in>set (Mem_generateForecast usbCable weeklyRecords now0). 45 \<le> f"
proof -
  have "45 \<le> max 0 \<lfloor>84 * (1 + sin x * 0.05) + cos y * 0 * 0.3\<rfloor>" for x y :: real
  proof -
    have "0 \<le> 39 + sin x * 21 / 5"
      using sin_ge_minus_one[of x] by linarith
    then have "(45::real) \<le> 84 * (1 + sin x * 0.05) + cos y * 0 * 0.3"
      by (simp add: algebra_simps)
    then have "45 \<le> \<lfloor>84 * (1 + sin x * 0.05) + cos y * 0 * 0.3\<rfloor>"
      unfolding le_floor_iff by simp
    then show ?thesis by simp
  qed
  then show ?thesis
    by (auto simp: Mem_generateForecast_def Let_def Mem_weekly_demand Mem_weekly_variability
          simp del: le_floor_iff)
qed

lemma future_stock_zero:
  assumes "0 \<le> cs" and "\<forall>f\<in>set fc. cs \<le> f" and "fc \<noteq> []" and "4 \<le> j"
  shows "max 0 (cs - sum_list (take (j - 3) (fc::int list))) = 0"
proof -
  have nn: "\<forall>f\<in>set fc. 0 \<le> f" using assms(1,2) by force
  have "sum_list (take 1 fc) \<le> sum_list (take (j - 3) fc)"
    using assms(4) by (intro sum_take_mono[OF nn]) simp
  moreover have "cs \<le> sum_list (take 1 fc)"
    using assms(2,3) by (cases fc) simp_all
  ultimately show ?thesis by simp
qed

lemma Mem_weekly_stocks:
  "map projectedStock
     (Mem_allWeeks weeklyStore usbCable (Mem_generateForecast usbCable weeklyRecords now0) now0)
     = [Some 381, Some 297, Some 213, Some 129, Some 0, Some 0, Some 0, Some 0, Some 0,
        Some 0, Some 0, Some 0]"
proof -
  let ?fc = "Mem_generateForecast usbCable weeklyRecords now0"
  let ?aw = "Mem_allWeeks weeklyStore usbCable ?fc now0"
  have len: "length ?fc = 8" by (rule length_Mem_generateForecast)
  then have ne: "?fc \<noteq> []" by auto
  have h: "Mem_history weeklyStore usbCable = weeklyRecords"
    by (simp add: Mem_history_def weeklyStore_def usbCable_def)
  have cs: "currentStock usbCable = 45" by (simp add: usbCable_def)
  have fut: "projectedStock (?aw ! j) = Some 0" if "4 \<le> j" "j < 12" for j
    using Mem_allWeeks_future(1)[OF len that, of weeklyStore usbCable now0]
      future_stock_zero[OF _ Mem_weekly_forecast ne that(1)]
    by (simp add: cs)
  have hist: "projectedStock (?aw ! 0) = Some 381" "projectedStock (?aw ! Suc 0) = Some 297"
    "projectedStock (?aw ! 2) = Some 213" "projectedStock (?aw ! 3) = Some 129"
    using Mem_allWeeks_hist(1)[of 0 weeklyStore usbCable ?fc now0]
      Mem_allWeeks_hist(1)[of "Suc 0" weeklyStore usbCable ?fc now0]
      Mem_allWeeks_hist(1)[of 2 weeklyStore usbCable ?fc now0]
      Mem_allWeeks_hist(1)[of 3 weeklyStore usbCable ?fc now0]
    by (simp_all add: h cs Mem_weekly_demand)
  have "map projectedStock ?aw
          = [projectedStock (?aw ! 0), projectedStock (?aw ! 1), projectedStock (?aw ! 2),
             projectedStock (?aw ! 3), projectedStock (?aw ! 4), projectedStock (?aw ! 5),
             projectedStock (?aw ! 6), projectedStock (?aw ! 7), projectedStock (?aw ! 8),
             projectedStock (?aw ! 9), projectedStock (?aw ! 10), projectedStock (?aw ! 11)]"
    using list12[of "map projectedStock ?aw"] by (simp add: length_Mem_allWeeks)
  then show ?thesis by (simp add: fut hist)
qed


lemma Mem_weekly_status:
  "map status (Mem_generateStockStatus weeklyStore usbCable
                 (Mem_generateForecast usbCable weeklyRecords now0) now0)
     = [Enough, Enough, Enough, Low, Order, Order, Order, Order, Order, Order, Order, Order]"
proof -
  let ?aw = "Mem_allWeeks weeklyStore usbCable
               (Mem_generateForecast usbCable weeklyRecords now0) now0"
  let ?ws = "classifyWeeks 60 ?aw"
  have len: "length ?aw = 12" by (rule length_Mem_allWeeks)
  note st = stock_nth[OF Mem_weekly_stocks]
  have at4: "orderLevel 60 (projectedStock (?aw ! 4))"
    by (simp add: st orderLevel_def)
  have before: "\<forall>j<4. \<not> orderLevel 60 (projectedStock (?aw ! j))"
    by (auto simp: st orderLevel_def dest!: lt4_cases)
  have ord: "status (?ws ! j) = Order" if "4 \<le> j" "j < 12" for j
  proof -
    from that have "j = 4 \<or> j = 5 \<or> j = 6 \<or> j = 7 \<or> j = 8 \<or> j = 9 \<or> j = 10 \<or> j = 11"
      by arith
    then have "orderLevel 60 (projectedStock (?aw ! j))"
      by (auto simp: st orderLevel_def)
    with that show ?thesis by (simp add: classify_Order len)
  qed
  have low: "status (?ws ! 3) = Low"
    using classify_Low_before[of 4 ?aw 60 3] at4 before len by simp
  have en: "status (?ws ! 0) = Enough" "status (?ws ! 1) = Enough" "status (?ws ! 2) = Enough"
    using classify_Enough_before[of 4 ?aw 60 0] classify_Enough_before[of 4 ?aw 60 1]
      classify_Enough_before[of 4 ?aw 60 2] at4 before len by simp_all
  have "map status ?ws
          = [status (?ws ! 0), status (?ws ! 1), status (?ws ! 2), status (?ws ! 3),
             status (?ws ! 4), status (?ws ! 5), status (?ws ! 6), status (?ws ! 7),
             status (?ws ! 8), status (?ws ! 9), status (?ws ! 10), status (?ws ! 11)]"
    using list12[of "map status ?ws"] by (simp add: length_classifyWeeks len)
  then have "map status ?ws
     = [Enough, Enough, Enough, Low, Order, Order, Order, Order, Order, Order, Order, Order]"
    by (simp only: en low ord[of 4] ord[of 5] ord[of 6] ord[of 7] ord[of 8] ord[of 9]
          ord[of 10] ord[of 11])
  then show ?thesis by (simp add: Mem_generateStockStatus_def usbCable_def)
qed

lemma Mem_weekly_insights:
  "aiInsights (Mem_withForecast weeklyStore usbCable now0) = [OutOfStockIn 5, HighDemandEOQ 84]"
proof -
  let ?ws = "Mem_generateStockStatus weeklyStore usbCable
               (Mem_generateForecast usbCable weeklyRecords now0) now0"
  have h: "Mem_history weeklyStore usbCable = weeklyRecords"
    by (simp add: Mem_history_def weeklyStore_def usbCable_def)
  have "Mem_generateAIInsights usbCable ?ws 84 = [OutOfStockIn 5, HighDemandEOQ 84]"
    unfolding Mem_generateAIInsights_def findIndex_def Let_def
      filter_map_length[of "\<lambda>s. s = Order" status] findIndexFrom_map[of "\<lambda>s. s = Order" status]
      Mem_weekly_status
    by (simp add: usbCable_def)
  then show ?thesis
    by (simp add: Mem_withForecast_def Let_def h Mem_weekly_demand
          InventoryItem.defs InventoryItemWithForecast.defs)
qed


lemma map_pair_zip: "map (\<lambda>s. (f s, g s)) xs = zip (map f xs) (map g xs)"
  by (induction xs) simp_all

lemma PG_weekly_totals:
  "map snd (PG_weeklyTotals weeklyRecords) = [84, 84, 84, 84, 84, 84, 84, 84, 84, 84, 84, 84]"
  by code_simp

lemma PG_weekly_demand: "PG_calculateWeeklyDemand weeklyRecords = 84"
proof -
  have "length weeklyRecords = 12" by (simp add: weeklyRecords_def)
  moreover have "length (PG_weeklyTotals weeklyRecords) = 12"
    using arg_cong[OF PG_weekly_totals, of length] by simp
  moreover from this have "PG_weeklyTotals weeklyRecords \<noteq> []" by auto
  ultimately show ?thesis
    by (simp add: PG_calculateWeeklyDemand_def Let_def PG_weekly_totals)
qed

lemma PG_weekly_forecast:
  "\<forall>f\<in>set (PG_generateForecast usbCable weeklyRecords). 45 \<le> f"
proof -
  have "45 \<le> js_round (max 0 (84 * (1 + sin x * 0.2)))" for x :: real
  proof -
    have "0 \<le> 39 + sin x * 84 / 5 + 1 / 2"
      using sin_ge_minus_one[of x] by linarith
    then have "(45::real) \<le> 84 * (1 + sin x * 0.2) + 1 / 2"
      by (simp add: algebra_simps)
    moreover have "84 * (1 + sin x * 0.2) \<le> max 0 (84 * (1 + sin x * 0.2))" by simp
    ultimately have "(45::real) \<le> max 0 (84 * (1 + sin x * 0.2)) + 1 / 2" by linarith
    then show ?thesis unfolding js_round_def le_floor_iff by simp
  qed
  then show ?thesis
    by (auto simp: PG_generateForecast_def Let_def PG_weekly_demand)
qed

lemma PG_weekly_weeks:
  "map (\<lambda>s. (status s, isHistorical s))
     (PG_generateStockStatus usbCable (PG_generateForecast usbCable weeklyRecords) now0)
     = [(Order, True), (Order, True), (Order, True), (Order, True), (Order, False),
        (Order, False), (Order, False), (Order, False), (Order, False), (Order, False),
        (Order, False), (Order, False)]"
proof -
  let ?fc = "PG_generateForecast usbCable weeklyRecords"
  let ?aw = "PG_allWeeks usbCable ?fc now0"
  let ?ws = "classifyWeeks 60 ?aw"
  let ?f = "\<lambda>s. (status s, isHistorical s)"
  have len: "length ?aw = 12" by (rule length_PG_allWeeks)
  have ne: "?fc \<noteq> []" by (simp add: PG_generateForecast_def Let_def)
  have cs: "currentStock usbCable = 45" by (simp add: usbCable_def)
  have hist: "?f (?ws ! j) = (Order, True)" if "j < 4" for j
    using PG_allWeeks_hist[OF that, of usbCable ?fc now0] that
    by (simp add: classify_Order classifyWeeks_nth(3) len cs orderLevel_def)
  have fut: "?f (?ws ! j) = (Order, False)" if "4 \<le> j" "j < 12" for j
    using PG_allWeeks_future[OF that, of usbCable ?fc now0] that
      future_stock_zero[OF _ PG_weekly_forecast ne that(1)]
    by (simp add: classify_Order classifyWeeks_nth(3) len cs orderLevel_def)
  have "map ?f ?ws
          = [?f (?ws ! 0), ?f (?ws ! 1), ?f (?ws ! 2), ?f (?ws ! 3), ?f (?ws ! 4),
             ?f (?ws ! 5), ?f (?ws ! 6), ?f (?ws ! 7), ?f (?ws ! 8), ?f (?ws ! 9),
             ?f (?ws ! 10), ?f (?ws ! 11)]"
    using list12[of "map ?f ?ws"] by (simp add: length_classifyWeeks len)
  then have "map ?f ?ws
     = [(Order, True), (Order, True), (Order, True), (Order, True), (Order, False),
        (Order, False), (Order, False), (Order, False), (Order, False), (Order, False),
        (Order, False), (Order, False)]"
    by (simp only: hist[of 0] hist[of 1] hist[of 2] hist[of 3] fut[of 4] fut[of 5] fut[of 6]
          fut[of 7] fut[of 8] fut[of 9] fut[of 10] fut[of 11])
  then show ?thesis by (simp add: PG_generateStockStatus_def usbCable_def)
qed

lemma PG_weekly_insights:
  "aiInsights (PG_withForecast weeklyRecords usbCable now0)
     = [CriticalRunOut 8, HighDemandMonitor]"
proof -
  let ?ws = "PG_generateStockStatus usbCable (PG_generateForecast usbCable weeklyRecords) now0"
  have h: "filter (\<lambda>d. itemId d = item_id usbCable) weeklyRecords = weeklyRecords"
    by (simp add: weeklyRecords_def usbCable_def)
  have ow: "length (filter (\<lambda>s. status s = Order \<and> \<not> isHistorical s) ?ws) = 8"
    using filter_map_length[of "\<lambda>p. fst p = Order \<and> \<not> snd p"
            "\<lambda>s. (status s, isHistorical s)" ?ws]
    by (simp add: PG_weekly_weeks)
  have "PG_generateAIInsights usbCable ?ws 84 = [CriticalRunOut 8, HighDemandMonitor]"
    unfolding PG_generateAIInsights_def Let_def ow
    by (simp add: usbCable_def)
  then show ?thesis
    by (simp add: PG_withForecast_def Let_def h PG_weekly_demand
          InventoryItem.defs InventoryItemWithForecast.defs)
qed


lemma Mem_weekly_historical:
  "map isHistorical (Mem_generateStockStatus weeklyStore usbCable
                       (Mem_generateForecast usbCable weeklyRecords now0) now0)
     = [True, True, True, True, False, False, False, False, False, False, False, False]"
proof -
  let ?fc = "Mem_generateForecast usbCable weeklyRecords now0"
  let ?aw = "Mem_allWeeks weeklyStore usbCable ?fc now0"
  let ?ws = "classifyWeeks 60 ?aw"
  have len: "length ?aw = 12" by (rule length_Mem_allWeeks)
  have hist: "isHistorical (?ws ! j) = True" if "j < 4" for j
    using Mem_allWeeks_hist(2)[OF that, of weeklyStore usbCable ?fc now0] that
    by (simp add: classifyWeeks_nth(3) len)
  have fut: "isHistorical (?ws ! j) = False" if "4 \<le> j" "j < 12" for j
    using Mem_allWeeks_future(2)[OF length_Mem_generateForecast that, of weeklyStore usbCable
            usbCable weeklyRecords now0 now0] that
    by (simp add: classifyWeeks_nth(3) len)
  have "map isHistorical ?ws
          = [isHistorical (?ws ! 0), isHistorical (?ws ! 1), isHistorical (?ws ! 2),
             isHistorical (?ws ! 3), isHistorical (?ws ! 4), isHistorical (?ws ! 5),
             isHistorical (?ws ! 6), isHistorical (?ws ! 7), isHistorical (?ws ! 8),
             isHistorical (?ws ! 9), isHistorical (?ws ! 10), isHistorical (?ws ! 11)]"
    using list12[of "map isHistorical ?ws"] by (simp add: length_classifyWeeks len)
  then have "map isHistorical ?ws
     = [True, True, True, True, False, False, False, False, False, False, False, False]"
    by (simp only: hist[of 0] hist[of 1] hist[of 2] hist[of 3] fut[of 4] fut[of 5] fut[of 6]
          fut[of 7] fut[of 8] fut[of 9] fut[of 10] fut[of 11])
  then show ?thesis by (simp add: Mem_generateStockStatus_def usbCable_def)
qed

lemma Mem_withForecast_stockStatus:
  "stockStatus (Mem_withForecast dh item now)
     = Mem_generateStockStatus dh item
         (Mem_generateForecast item (Mem_history dh item) now) now"
  by (simp add: Mem_withForecast_def Let_def InventoryItem.defs InventoryItemWithForecast.defs)

lemma PG_withForecast_stockStatus:
  "stockStatus (PG_withForecast demands item now)
     = PG_generateStockStatus item
         (PG_generateForecast item (filter (\<lambda>d. itemId d = item_id item) demands)) now"
  by (simp add: PG_withForecast_def Let_def InventoryItem.defs InventoryItemWithForecast.defs)

section \<open>The claims\<close>

text \<open>
  C1. In the 12 entries produced by \<open>generateStockStatus\<close> for an item, with the forecast
  of \<open>generateForecast\<close>, the first week whose projected stock is \<open>\<le> 0\<close> or \<open>\<le>\<close> the reorder
  point and every week at or after it is \<open>Order\<close>, historical weeks included; of the
  weeks before it, the one immediately before is \<open>Low\<close> and all others are \<open>Enough\<close>.
  For \<open>MemStorage\<close> the quantities of the item's stored demand records are not negative,
  which makes the weekly demand non-negative: a demand quantity is a number of units
  consumed (\<open>initializeSampleData\<close> clamps its quantities with \<open>Math.max(0, ...)\<close>). The
  forecast may come from any demand list at any instant, since \<open>generateForecast\<close> clamps
  its values at 0. \<open>PostgreSQLStorage\<close> needs no condition: its historical weeks use the
  weekly demand of an empty history.
\<close>

theorem C1_first_order_week_rule:
  "((\<forall>d\<in>set (Mem_history dh item). 0 \<le> quantity d)
      \<longrightarrow> firstOrderRule (reorderPoint item)
            (Mem_generateStockStatus dh item (Mem_generateForecast item ds t) now))
   \<and> firstOrderRule (reorderPoint item)
        (PG_generateStockStatus item (PG_generateForecast item ds) now)"
proof (intro conjI impI)
  assume q: "\<forall>d\<in>set (Mem_history dh item). 0 \<le> quantity d"
  show "firstOrderRule (reorderPoint item)
          (Mem_generateStockStatus dh item (Mem_generateForecast item ds t) now)"
    unfolding Mem_generateStockStatus_def
    by (rule firstOrderRule_classify[OF length_Mem_allWeeks
          Mem_stock_mono[OF length_Mem_generateForecast Mem_generateForecast_nonneg
            Mem_weeklyDemand_nonneg[OF q]]])
next
  show "firstOrderRule (reorderPoint item)
          (PG_generateStockStatus item (PG_generateForecast item ds) now)"
    unfolding PG_generateStockStatus_def
    by (rule firstOrderRule_classify[OF length_PG_allWeeks
          PG_stock_mono[OF PG_generateForecast_nonneg]])
qed

theorem C1_first_order_week_rule_witness:
  "list_all (\<lambda>d. 0 \<le> quantity d) (Mem_history oneRecordStore usbCable)
   \<and> map projectedStock
        (Mem_generateStockStatus oneRecordStore usbCable (Mem_generateForecast usbCable [] now0)
           now0)
       = [Some 381, Some 297, Some 213, Some 129, Some 45, Some 45, Some 45, Some 45,
          Some 45, Some 45, Some 45, Some 45]
   \<and> status (Mem_generateStockStatus oneRecordStore usbCable
               (Mem_generateForecast usbCable [] now0) now0 ! 2) = Enough
   \<and> status (Mem_generateStockStatus oneRecordStore usbCable
               (Mem_generateForecast usbCable [] now0) now0 ! 3) = Low
   \<and> status (Mem_generateStockStatus oneRecordStore usbCable
               (Mem_generateForecast usbCable [] now0) now0 ! 4) = Order
   \<and> status (Mem_generateStockStatus oneRecordStore usbCable
               (Mem_generateForecast usbCable [] now0) now0 ! 11) = Order"
proof -
  let ?ws = "Mem_generateStockStatus oneRecordStore usbCable
               (Mem_generateForecast usbCable [] now0) now0"
  have q: "\<forall>d\<in>set (Mem_history oneRecordStore usbCable). 0 \<le> quantity d"
    by (simp add: Mem_history_def oneRecordStore_def usbCable_def oneRecord_def)
  have st: "map projectedStock ?ws
     = [Some 381, Some 297, Some 213, Some 129, Some 45, Some 45, Some 45, Some 45,
        Some 45, Some 45, Some 45, Some 45]"
    by (simp add: Mem_forecast_empty oneRecord_stocks)
  have lv: "orderLevel 60 (projectedStock (?ws ! 4))"
    "\<forall>j<4. \<not> orderLevel 60 (projectedStock (?ws ! j))"
    by (auto simp: stock_nth[OF st] orderLevel_def dest!: lt4_cases)
  from C1_first_order_week_rule[of oneRecordStore usbCable "[]" now0 now0] q
  have "firstOrderRule 60 ?ws" by (simp add: usbCable_def)
  then have r: "\<forall>k<12. orderLevel 60 (projectedStock (?ws ! k))
              \<and> (\<forall>j<k. \<not> orderLevel 60 (projectedStock (?ws ! j)))
        \<longrightarrow> (\<forall>j<12. k \<le> j \<longrightarrow> status (?ws ! j) = Order)
            \<and> (\<forall>j<k. status (?ws ! j) = (if Suc j = k then Low else Enough))"
    unfolding firstOrderRule_def by blast
  have "(\<forall>j<12. 4 \<le> j \<longrightarrow> status (?ws ! j) = Order)
      \<and> (\<forall>j<4. status (?ws ! j) = (if Suc j = 4 then Low else Enough))"
    using r[rule_format, of 4] lv by simp
  then have "status (?ws ! 2) = Enough" "status (?ws ! 3) = Low"
    "status (?ws ! 4) = Order" "status (?ws ! 11) = Order"
    by simp_all
  with q st show ?thesis by (simp add: list_all_iff)
qed

text \<open>
  C2. In the classified week sequence of an item at most one week has the status
  \<open>Low\<close>; if a week is \<open>Low\<close>, the next week is \<open>Order\<close> and no week before the \<open>Low\<close>
  week is \<open>Order\<close>; and if no week is \<open>Order\<close>, no week is \<open>Low\<close>. This holds for the
  output of \<open>generateStockStatus\<close> of both classes, whatever the item, the stored demand
  and the forecast array are.
\<close>

theorem C2_low_week_rule:
  "lowRule (Mem_generateStockStatus dh item fc now)
   \<and> lowRule (PG_generateStockStatus item fc now)"
  by (simp add: Mem_generateStockStatus_def PG_generateStockStatus_def lowRule_classifyWeeks)

theorem C2_low_week_rule_witness:
  "status (Mem_generateStockStatus oneRecordStore usbCable [0, 0, 0, 0, 0, 0, 0, 0] now0 ! 3) = Low
   \<and> status (Mem_generateStockStatus oneRecordStore usbCable [0, 0, 0, 0, 0, 0, 0, 0] now0 ! 4)
       = Order
   \<and> status (Mem_generateStockStatus oneRecordStore usbCable [0, 0, 0, 0, 0, 0, 0, 0] now0 ! 2)
       \<noteq> Order"
proof -
  let ?ws = "Mem_generateStockStatus oneRecordStore usbCable [0, 0, 0, 0, 0, 0, 0, 0] now0"
  let ?aw = "Mem_allWeeks oneRecordStore usbCable [0, 0, 0, 0, 0, 0, 0, 0] now0"
  have len: "length ?ws = 12" "length ?aw = 12"
    by (simp_all add: Mem_generateStockStatus_def length_classifyWeeks length_Mem_allWeeks)
  have st: "map projectedStock ?aw
     = [Some 381, Some 297, Some 213, Some 129, Some 45, Some 45, Some 45, Some 45,
        Some 45, Some 45, Some 45, Some 45]"
    using oneRecord_stocks
    by (simp add: Mem_generateStockStatus_def projectedStock_classifyWeeks)
  have lv: "orderLevel 60 (projectedStock (?aw ! 4))"
    "\<forall>j<4. \<not> orderLevel 60 (projectedStock (?aw ! j))"
    by (auto simp: stock_nth[OF st] orderLevel_def dest!: lt4_cases)
  have low: "status (?ws ! 3) = Low"
    unfolding Mem_generateStockStatus_def
    using classify_Low_before[of 4 ?aw 60 3] lv len by (simp add: usbCable_def)
  from C2_low_week_rule[of oneRecordStore usbCable "[0, 0, 0, 0, 0, 0, 0, 0]" now0]
  have "lowRule ?ws" by simp
  then have r: "\<forall>i<length ?ws. status (?ws ! i) = Low
        \<longrightarrow> Suc i < length ?ws \<and> status (?ws ! Suc i) = Order
            \<and> (\<forall>j<i. status (?ws ! j) \<noteq> Order)"
    unfolding lowRule_def by blast
  have "3 < length ?ws" by (simp add: len)
  from r[rule_format, OF this low]
  have "status (?ws ! Suc 3) = Order" "\<forall>j<3. status (?ws ! j) \<noteq> Order" by simp_all
  then have "status (?ws ! 4) = Order" "status (?ws ! 2) \<noteq> Order" by simp_all
  with low show ?thesis by simp
qed

text \<open>
  C3. Every entry of the sequence produced by \<open>generateStockStatus\<close>, the 4 historical
  weeks and the 8 future weeks alike, has a projected stock that is a number and is not
  negative. For \<open>MemStorage\<close> the forecast array has its 8 entries (a missing entry would
  make the stock \<open>NaN\<close>); \<open>PostgreSQLStorage\<close> reads a missing entry as 0. The claim's
  conditions on the signs of the current stock, the weekly demand and the forecast are
  not needed: \<open>Math.max(0, ...)\<close> clamps every entry.
\<close>

theorem C3_projected_stock_nonnegative:
  "(length fc = 8 \<longrightarrow> stocksNonNegative (Mem_generateStockStatus dh item fc now))
   \<and> stocksNonNegative (PG_generateStockStatus item fc now)"
  by (simp add: Mem_generateStockStatus_def PG_generateStockStatus_def
        stocksNonNegative_classify length_Mem_allWeeks length_PG_allWeeks
        Mem_stock_nonneg PG_stock_nonneg)

theorem C3_projected_stock_nonnegative_witness:
  "length [50, 0, 0, 0, 0, 0, 0, (0::int)] = 8
   \<and> list_all (\<lambda>w. \<exists>s. projectedStock w = Some s \<and> 0 \<le> s)
        (Mem_generateStockStatus oneRecordStore usbCable [50, 0, 0, 0, 0, 0, 0, 0] now0)
   \<and> projectedStock
        (Mem_generateStockStatus oneRecordStore usbCable [50, 0, 0, 0, 0, 0, 0, 0] now0 ! 4)
       = Some 0"
proof -
  have "stocksNonNegative
          (Mem_generateStockStatus oneRecordStore usbCable [50, 0, 0, 0, 0, 0, 0, 0] now0)"
    using C3_projected_stock_nonnegative[of "[50, 0, 0, 0, 0, 0, 0, 0]" oneRecordStore
            usbCable now0]
    by simp
  moreover have "projectedStock
        (Mem_generateStockStatus oneRecordStore usbCable [50, 0, 0, 0, 0, 0, 0, 0] now0 ! 4)
       = Some 0"
    by (simp add: Mem_generateStockStatus_def classifyWeeks_nth length_Mem_allWeeks
          Mem_allWeeks_future usbCable_def)
  ultimately show ?thesis
    by (simp add: stocksNonNegative_def list_all_iff)
qed

text \<open>
  C4. The forecast of \<open>MemStorage.generateForecast\<close> is a sequence of exactly 8
  non-negative integers whose entry at the index \<open>i\<close> (from 0) is the specification's
  value \<open>max(0, floor(weeklyDemand * (1 + sin(seed + i) * 0.05)
  + cos(seed + i * 2) * demandVariability * 0.3))\<close> with \<open>seed = id * 123\<close>, where the weekly
  demand and the variability are those the class computes from the demand history.
\<close>

theorem C4_forecast_formula:
  "length (Mem_generateForecast item demands now) = 8
   \<and> (\<forall>i<8. Mem_generateForecast item demands now ! i
                = spec_forecastValue (item_id item) (Mem_calculateWeeklyDemand demands now)
                    (Mem_calculateDemandVariability demands now) i
             \<and> 0 \<le> Mem_generateForecast item demands now ! i)"
  by (simp add: Mem_generateForecast_def spec_forecastValue_def Let_def)

theorem C4_forecast_formula_witness:
  "Mem_generateForecast usbCable [oneRecord] now0 ! 2
     = max 0 \<lfloor>84 * (1 + sin 371 * 0.05) + cos 373 * sqrt 77616 * 0.3\<rfloor>
   \<and> 0 \<le> Mem_generateForecast usbCable [oneRecord] now0 ! 2
   \<and> Mem_generateForecast usbCable [] now0 ! 7 = 0"
proof -
  have a: "\<forall>i<8. Mem_generateForecast usbCable [oneRecord] now0 ! i
                = spec_forecastValue (item_id usbCable)
                    (Mem_calculateWeeklyDemand [oneRecord] now0)
                    (Mem_calculateDemandVariability [oneRecord] now0) i
             \<and> 0 \<le> Mem_generateForecast usbCable [oneRecord] now0 ! i"
    using C4_forecast_formula[of usbCable "[oneRecord]" now0] by blast
  have b: "\<forall>i<8. Mem_generateForecast usbCable [] now0 ! i
                = spec_forecastValue (item_id usbCable)
                    (Mem_calculateWeeklyDemand [] now0)
                    (Mem_calculateDemandVariability [] now0) i
             \<and> 0 \<le> Mem_generateForecast usbCable [] now0 ! i"
    using C4_forecast_formula[of usbCable "[]" now0] by blast
  have e: "Mem_calculateWeeklyDemand [] now0 = 0" "Mem_calculateDemandVariability [] now0 = 0"
    by (simp_all add: Mem_calculateWeeklyDemand_def Mem_calculateDemandVariability_def
          Mem_weeklyTotals_def Mem_weekTotal_def
          upt_rec[of _ "numeral _"] upt_rec[of _ "Suc _"])
  from a[rule_format, of 2] b[rule_format, of 7] show ?thesis
    by (simp add: spec_forecastValue_def Mem_oneRecord_weeklyDemand Mem_oneRecord_variability
          usbCable_def e)
qed

text \<open>
  C5. The claim: for every item the weekly demand is the arithmetic mean over exactly 12
  weekly bucket totals of the trailing 12-week window, a week without matching records
  counting as 0 and staying in the divisor. \<open>MemStorage.calculateWeeklyDemand\<close> computes
  that mean for every history and instant. \<open>PostgreSQLStorage.calculateWeeklyDemand\<close>,
  introduced in its class as reusing the logic of \<open>MemStorage\<close>, does not: on the history
  with the single record of 1008 units a week before \<open>now0\<close> it returns 1008, the total
  divided by the one calendar week that has a record, where the mean over the 12 buckets
  (and the result of \<open>MemStorage\<close>) is 84.
\<close>

theorem C5_weekly_demand_on_sample:
  "Mem_calculateWeeklyDemand demands now = spec_weeklyDemand demands now
   \<and> length (Mem_weeklyTotals demands now) = 12
   \<and> spec_weeklyDemand [oneRecord] now0 = 84
   \<and> Mem_calculateWeeklyDemand [oneRecord] now0 = 84
   \<and> PG_calculateWeeklyDemand [oneRecord] = 1008
   \<and> PG_calculateWeeklyDemand [oneRecord] \<noteq> spec_weeklyDemand [oneRecord] now0"
proof -
  have "PG_calculateWeeklyDemand [oneRecord] = 1008"
    by (simp add: PG_weeklyDemand_closed oneRecord_def)
  moreover have "spec_weeklyDemand [oneRecord] now0 = 84"
    by (simp add: Mem_weeklyDemand_spec[symmetric] Mem_oneRecord_weeklyDemand)
  ultimately show ?thesis
    using Mem_weeklyDemand_spec[of demands now] length_Mem_weeklyTotals[of demands now]
    by (simp add: Mem_oneRecord_weeklyDemand)
qed

text \<open>
  C6. The claim: an item whose demand history has zero or one demand records has the
  demand variability 0. \<open>PostgreSQLStorage.calculateDemandVariability\<close> returns 0 for
  every such history, by its guard \<open>demands.length < 2\<close>.
  \<open>MemStorage.calculateDemandVariability\<close> has no such guard: it returns 0 for the empty
  history, but for the history with the single record of 1008 units a week before \<open>now0\<close>
  its twelve weekly totals are 1008 and eleven times 0, and it returns their standard
  deviation \<open>84 * sqrt 11\<close>, which is not 0.
\<close>

theorem C6_variability_on_sample:
  "PG_calculateDemandVariability [] = 0
   \<and> PG_calculateDemandVariability [d] = 0
   \<and> Mem_calculateDemandVariability [] now = 0
   \<and> length [oneRecord] = 1
   \<and> Mem_calculateDemandVariability [oneRecord] now0 = 84 * sqrt 11
   \<and> Mem_calculateDemandVariability [oneRecord] now0 \<noteq> 0"
proof -
  have "Mem_inWeek now0 0 oneRecord"
    by (simp add: Mem_inWeek_def oneRecord_def dayMs_def)
  then have "\<exists>w<12. Mem_inWeek now0 w oneRecord" by (intro exI[of _ 0]) simp
  then have "Mem_calculateDemandVariability [oneRecord] now0 = 84 * sqrt 11"
    by (simp add: Mem_variability_single oneRecord_def)
  then show ?thesis
    by (simp add: Mem_variability_empty PG_variability_short)
qed

text \<open>
  C7. For an item whose current stock is strictly below its reorder point, and 8
  non-negative forecast values, the entry of week 0, the first entry that is not
  historical (index 4, displayed as week 5), has the status \<open>Order\<close>.
\<close>

theorem C7_stock_below_reorder_point:
  assumes "currentStock item < reorderPoint item"
    and "length fc = 8" and "\<forall>f\<in>set fc. 0 \<le> f"
  shows "status (Mem_generateStockStatus dh item fc now ! 4) = Order
         \<and> \<not> isHistorical (Mem_generateStockStatus dh item fc now ! 4)
         \<and> isHistorical (Mem_generateStockStatus dh item fc now ! 3)"
proof -
  let ?aw = "Mem_allWeeks dh item fc now"
  have len: "length ?aw = 12" by (rule length_Mem_allWeeks)
  have s: "projectedStock (?aw ! 4)
             = Some (max 0 (currentStock item - sum_list (take (4 - 3) fc)))"
    and h: "\<not> isHistorical (?aw ! 4)"
    by (rule Mem_allWeeks_future[OF assms(2)]; simp)+
  have "0 \<le> sum_list (take (4 - 3) fc)" by (rule sum_take_nonneg[OF assms(3)])
  with assms(1) have "orderLevel (reorderPoint item) (projectedStock (?aw ! 4))"
    unfolding s orderLevel_def by (simp add: max_def)
  then have "status (classifyWeeks (reorderPoint item) ?aw ! 4) = Order"
    by (simp add: classify_Order len)
  moreover have "isHistorical (?aw ! 3)" by (rule Mem_allWeeks_hist) simp
  ultimately show ?thesis
    using h by (simp add: Mem_generateStockStatus_def classifyWeeks_nth len)
qed

theorem C7_stock_below_reorder_point_witness:
  "currentStock usbCable < reorderPoint usbCable
   \<and> length [12, 12, 12, 12, 12, 12, 12, (12::int)] = 8
   \<and> list_all (\<lambda>f. 0 \<le> f) [12, 12, 12, 12, 12, 12, 12, (12::int)]
   \<and> status (Mem_generateStockStatus oneRecordStore usbCable
               [12, 12, 12, 12, 12, 12, 12, 12] now0 ! 4) = Order"
proof -
  have a: "currentStock usbCable < reorderPoint usbCable" by (simp add: usbCable_def)
  from C7_stock_below_reorder_point[OF a, of "[12, 12, 12, 12, 12, 12, 12, 12]"
         oneRecordStore now0] a
  show ?thesis by simp
qed

text \<open>
  C8. The claim: the stockout-countdown message is emitted if and only if some
  non-historical week is \<open>Order\<close>, and it cites the number of weeks from now until the
  first such week. The code, run on the USB-C Cable (current stock 45, reorder point 60)
  with 84 units of demand in each of the twelve weeks before \<open>now0\<close>: the four historical
  weeks are \<open>Enough, Enough, Enough, Low\<close> and all eight future weeks are \<open>Order\<close> in
  \<open>MemStorage\<close>, so the first non-historical \<open>Order\<close> week is week 0, the current week.
  \<open>MemStorage.generateAIInsights\<close> cites 5, one more than the index of that week in the
  12-entry array that starts four weeks in the past; \<open>PostgreSQLStorage.generateAIInsights\<close>
  cites 8, the number of non-historical \<open>Order\<close> weeks.
\<close>

theorem C8_countdown_on_sample:
  "map status (stockStatus (Mem_withForecast weeklyStore usbCable now0))
     = [Enough, Enough, Enough, Low, Order, Order, Order, Order, Order, Order, Order, Order]
   \<and> map isHistorical (stockStatus (Mem_withForecast weeklyStore usbCable now0))
     = [True, True, True, True, False, False, False, False, False, False, False, False]
   \<and> aiInsights (Mem_withForecast weeklyStore usbCable now0)
     = [OutOfStockIn 5, HighDemandEOQ 84]
   \<and> map (\<lambda>s. (status s, isHistorical s))
         (stockStatus (PG_withForecast weeklyRecords usbCable now0))
     = [(Order, True), (Order, True), (Order, True), (Order, True), (Order, False),
        (Order, False), (Order, False), (Order, False), (Order, False), (Order, False),
        (Order, False), (Order, False)]
   \<and> aiInsights (PG_withForecast weeklyRecords usbCable now0)
     = [CriticalRunOut 8, HighDemandMonitor]"
proof -
  have h: "Mem_history weeklyStore usbCable = weeklyRecords"
    by (simp add: Mem_history_def weeklyStore_def usbCable_def)
  have f: "filter (\<lambda>d. itemId d = item_id usbCable) weeklyRecords = weeklyRecords"
    by (simp add: weeklyRecords_def usbCable_def)
  show ?thesis
    unfolding Mem_withForecast_stockStatus PG_withForecast_stockStatus h f
    by (simp only: Mem_weekly_status Mem_weekly_historical Mem_weekly_insights
          PG_weekly_weeks PG_weekly_insights simp_thms)
qed

text \<open>
  C9. Forecast generation is deterministic: two runs of \<open>MemStorage.generateForecast\<close> on
  items with the same id, whose demand histories give the same weekly demand and the
  same demand variability, return the same 8 values, entry by entry; the other fields
  of the items, the records themselves and the instants of the runs do not matter.
\<close>

theorem C9_forecast_deterministic:
  assumes "item_id item1 = item_id item2"
    and "Mem_calculateWeeklyDemand demands1 now1 = Mem_calculateWeeklyDemand demands2 now2"
    and "Mem_calculateDemandVariability demands1 now1
           = Mem_calculateDemandVariability demands2 now2"
  shows "Mem_generateForecast item1 demands1 now1 = Mem_generateForecast item2 demands2 now2
         \<and> length (Mem_generateForecast item1 demands1 now1) = 8
         \<and> (\<forall>i<8. Mem_generateForecast item1 demands1 now1 ! i
                     = Mem_generateForecast item2 demands2 now2 ! i)"
  using assms by (simp add: Mem_generateForecast_def Let_def)

theorem C9_forecast_deterministic_witness:
  "item_id usbCable = item_id (usbCable\<lparr>currentStock := 500, item_name := ''Cable''\<rparr>)
   \<and> Mem_calculateWeeklyDemand [oneRecord] now0
       = Mem_calculateWeeklyDemand [oneRecord\<lparr>dh_id := 7, date := now0 + 86400000\<rparr>]
           (now0 + 8 * 86400000)
   \<and> Mem_calculateDemandVariability [oneRecord] now0
       = Mem_calculateDemandVariability [oneRecord\<lparr>dh_id := 7, date := now0 + 86400000\<rparr>]
           (now0 + 8 * 86400000)
   \<and> Mem_generateForecast usbCable [oneRecord] now0
       = Mem_generateForecast (usbCable\<lparr>currentStock := 500, item_name := ''Cable''\<rparr>)
           [oneRecord\<lparr>dh_id := 7, date := now0 + 86400000\<rparr>] (now0 + 8 * 86400000)"
proof -
  have t: "Mem_weeklyTotals [oneRecord\<lparr>dh_id := 7, date := now0 + 86400000\<rparr>]
             (now0 + 8 * 86400000) = Mem_weeklyTotals [oneRecord] now0"
    by (simp add: Mem_weeklyTotals_def Mem_weekTotal_def
          Mem_inWeek_def oneRecord_def now0_def dayMs_def
          upt_rec[of _ "numeral _"] upt_rec[of _ "Suc _"])
  have a: "item_id usbCable = item_id (usbCable\<lparr>currentStock := 500, item_name := ''Cable''\<rparr>)"
    by simp
  have b: "Mem_calculateWeeklyDemand [oneRecord] now0
       = Mem_calculateWeeklyDemand [oneRecord\<lparr>dh_id := 7, date := now0 + 86400000\<rparr>]
           (now0 + 8 * 86400000)"
    by (simp only: Mem_calculateWeeklyDemand_def t)
  have c: "Mem_calculateDemandVariability [oneRecord] now0
       = Mem_calculateDemandVariability [oneRecord\<lparr>dh_id := 7, date := now0 + 86400000\<rparr>]
           (now0 + 8 * 86400000)"
    by (simp only: Mem_calculateDemandVariability_def t)
  from C9_forecast_deterministic[OF a b c] a b c show ?thesis by blast
qed

text \<open>
  C10. With a non-negative weekly demand and non-negative forecast values, the projected
  stocks of the 12 entries produced by \<open>generateStockStatus\<close> never increase from one
  week to the next: through the historical weeks, from the last historical week to the
  first future week, and through the future weeks. The sign of the current stock does
  not matter.
\<close>

theorem C10_projected_stock_non_increasing:
  assumes "length fc = 8" and "\<forall>f\<in>set fc. 0 \<le> f"
    and "0 \<le> Mem_calculateWeeklyDemand (Mem_history dh item) now"
  shows "nonIncreasingStock (Mem_generateStockStatus dh item fc now)"
  unfolding Mem_generateStockStatus_def
  by (rule nonIncreasing_classify[OF length_Mem_allWeeks Mem_stock_mono[OF assms]])

theorem C10_projected_stock_non_increasing_witness:
  "length [10, 5, 0, 20, 3, 0, 7, (1::int)] = 8
   \<and> list_all (\<lambda>f. 0 \<le> f) [10, 5, 0, 20, 3, 0, 7, (1::int)]
   \<and> 0 \<le> Mem_calculateWeeklyDemand (Mem_history oneRecordStore usbCable) now0
   \<and> (\<exists>a b. projectedStock
          (Mem_generateStockStatus oneRecordStore usbCable [10, 5, 0, 20, 3, 0, 7, 1] now0 ! 3)
            = Some a
        \<and> projectedStock
          (Mem_generateStockStatus oneRecordStore usbCable [10, 5, 0, 20, 3, 0, 7, 1] now0 ! 4)
            = Some b
        \<and> b \<le> a)"
proof -
  have wd: "Mem_calculateWeeklyDemand (Mem_history oneRecordStore usbCable) now0 = 84"
    by (simp add: Mem_history_def oneRecordStore_def usbCable_def Mem_oneRecord_weeklyDemand)
  have "nonIncreasingStock
          (Mem_generateStockStatus oneRecordStore usbCable [10, 5, 0, 20, 3, 0, 7, 1] now0)"
    by (rule C10_projected_stock_non_increasing) (simp_all add: wd)
  then have "\<forall>j<11. \<exists>a b. projectedStock
          (Mem_generateStockStatus oneRecordStore usbCable [10, 5, 0, 20, 3, 0, 7, 1] now0 ! j)
            = Some a
        \<and> projectedStock
          (Mem_generateStockStatus oneRecordStore usbCable [10, 5, 0, 20, 3, 0, 7, 1] now0 ! Suc j)
            = Some b
        \<and> b \<le> a"
    unfolding nonIncreasingStock_def by blast
  from this[rule_format, of 3] show ?thesis by (simp add: wd)
qed

end
